theory Spec2Isabelle
  imports Complex_Main
begin

section \<open>Lambda_b -> Lambda l+ l-: the amplitude pipeline of lambdablambdall.py\<close>

text \<open>
  The module is a chain of pure numeric functions over Python dictionaries.
  Python floats are read as mathematical reals and (numpy) complex numbers as
  \<^typ>\<open>complex\<close>: rounding, overflow, infinities and NaN are outside this
  development. Every way the Python code can raise is a value of \<open>error\<close>.
\<close>

subsection \<open>Python values: dictionary keys, exceptions, results\<close>

text \<open>Dictionary keys are strings (\<open>'0V++'\<close>) or tuples of strings (\<open>('perp1', 'L')\<close>).\<close>

datatype pykey = Str string | Tup "string list"

text \<open>
  \<open>KeyError\<close>: a missing dictionary key. \<open>ValueError\<close>: \<open>math.sqrt\<close> of a negative
  number. \<open>ZeroDivisionError\<close>: division by zero. \<open>NameError\<close>: a global name that the
  module never binds. \<open>ExternalError\<close>: whatever a collaborator outside the module raises.
\<close>

datatype error =
    KeyError pykey
  | ValueError
  | ZeroDivisionError
  | NameError string
  | ExternalError string

type_synonym 'a result = "error + 'a"

type_synonym 'v dict = "pykey \<rightharpoonup> 'v"

text \<open>Sequencing of statements that may raise: the first exception ends the computation.\<close>

definition bind_res :: "'a result \<Rightarrow> ('a \<Rightarrow> 'b result) \<Rightarrow> 'b result" where
  "bind_res m f = (case m of Inl e \<Rightarrow> Inl e | Inr v \<Rightarrow> f v)"

text \<open>\<open>d[k]\<close>\<close>

definition getitem :: "'v dict \<Rightarrow> pykey \<Rightarrow> 'v result" where
  "getitem d k = (case d k of None \<Rightarrow> Inl (KeyError k) | Some v \<Rightarrow> Inr v)"

text \<open>\<open>math.sqrt(x)\<close>\<close>

definition py_sqrt :: "real \<Rightarrow> real result" where
  "py_sqrt x = (if x < 0 then Inl ValueError else Inr (sqrt x))"

text \<open>\<open>a / b\<close> on floats, and on a complex numerator with a float denominator\<close>

definition py_div :: "real \<Rightarrow> real \<Rightarrow> real result" where
  "py_div a b = (if b = 0 then Inl ZeroDivisionError else Inr (a / b))"

definition py_cdiv :: "complex \<Rightarrow> real \<Rightarrow> complex result" where
  "py_cdiv a b = (if b = 0 then Inl ZeroDivisionError else Inr (a / complex_of_real b))"

subsection \<open>Helicity amplitudes\<close>

text \<open>
  \<open>helicity_amps(q2, mLb, mL, ff)\<close>, statement by statement. Each right-hand side is
  evaluated left to right, so the order of the lookups, square roots and divisions is
  the order in which Python can raise.
\<close>

definition helicity_amps :: "real \<Rightarrow> real \<Rightarrow> real \<Rightarrow> real dict \<Rightarrow> real dict result" where
  "helicity_amps q2 mLb mL ff =
    (let sp = (mLb + mL)\<^sup>2 - q2;
         sm = (mLb - mL)\<^sup>2 - q2;
         H = Map.empty
     in
     bind_res (getitem ff (Str ''fV0'')) (\<lambda>fV0.
     bind_res (py_sqrt q2) (\<lambda>r1.
     bind_res (py_div (fV0 * (mLb + mL)) r1) (\<lambda>d1.
     bind_res (py_sqrt sm) (\<lambda>r2.
     let H = H(Str ''0V++'' \<mapsto> d1 * r2) in
     bind_res (getitem ff (Str ''fVperp'')) (\<lambda>fVperp.
     bind_res (py_sqrt (2 * sm)) (\<lambda>r3.
     let H = H(Str ''+V-+'' \<mapsto> - fVperp * r3) in
     bind_res (getitem ff (Str ''fA0'')) (\<lambda>fA0.
     bind_res (py_sqrt q2) (\<lambda>r4.
     bind_res (py_div (fA0 * (mLb - mL)) r4) (\<lambda>d2.
     bind_res (py_sqrt sp) (\<lambda>r5.
     let H = H(Str ''0A++'' \<mapsto> d2 * r5) in
     bind_res (getitem ff (Str ''fAperp'')) (\<lambda>fAperp.
     bind_res (py_sqrt (2 * sp)) (\<lambda>r6.
     let H = H(Str ''+A-+'' \<mapsto> - fAperp * r6) in
     bind_res (getitem ff (Str ''fT0'')) (\<lambda>fT0.
     bind_res (py_sqrt q2) (\<lambda>r7.
     bind_res (py_sqrt sm) (\<lambda>r8.
     let H = H(Str ''0T++'' \<mapsto> - fT0 * r7 * r8) in
     bind_res (getitem ff (Str ''fTperp'')) (\<lambda>fTperp.
     bind_res (py_sqrt (2 * sm)) (\<lambda>r9.
     let H = H(Str ''+T-+'' \<mapsto> fTperp * (mLb + mL) * r9) in
     bind_res (getitem ff (Str ''fT50'')) (\<lambda>fT50.
     bind_res (py_sqrt q2) (\<lambda>r10.
     bind_res (py_sqrt sp) (\<lambda>r11.
     let H = H(Str ''0T5++'' \<mapsto> fT50 * r10 * r11) in
     bind_res (getitem ff (Str ''fT5perp'')) (\<lambda>fT5perp.
     bind_res (py_sqrt (2 * sp)) (\<lambda>r12.
     let H = H(Str ''+T5-+'' \<mapsto> - fT5perp * (mLb - mL) * r12) in
     bind_res (getitem H (Str ''0V++'')) (\<lambda>h1.
     let H = H(Str ''0V--'' \<mapsto> h1) in
     bind_res (getitem H (Str ''+V-+'')) (\<lambda>h2.
     let H = H(Str ''+V+-'' \<mapsto> h2) in
     bind_res (getitem H (Str ''0A++'')) (\<lambda>h3.
     let H = H(Str ''0A--'' \<mapsto> - h3) in
     bind_res (getitem H (Str ''+A-+'')) (\<lambda>h4.
     let H = H(Str ''+A+-'' \<mapsto> - h4) in
     bind_res (getitem H (Str ''0T++'')) (\<lambda>h5.
     let H = H(Str ''0T--'' \<mapsto> h5) in
     bind_res (getitem H (Str ''+T-+'')) (\<lambda>h6.
     let H = H(Str ''+T+-'' \<mapsto> h6) in
     bind_res (getitem H (Str ''0T5++'')) (\<lambda>h7.
     let H = H(Str ''0T5--'' \<mapsto> - h7) in
     bind_res (getitem H (Str ''+T5-+'')) (\<lambda>h8.
     let H = H(Str ''+T5+-'' \<mapsto> - h8) in
     Inr H)))))))))))))))))))))))))))))))"

subsection \<open>Transversity amplitudes\<close>

text \<open>
  \<open>transverity_amps(ha, q2, mLb, mL, mqh, mql, wc, prefactor)\<close>. The right-hand side
  of every assignment is a function of its own, named after the assigned variable or
  dictionary entry: its dictionary lookups and its division by \<open>q2\<close> in evaluation
  order, then the value. The helicity amplitudes are real and are promoted to complex
  numbers by the products.
\<close>

definition rhs_C910Lpl :: "complex dict \<Rightarrow> complex result" where
  "rhs_C910Lpl wc =
     bind_res (getitem wc (Str ''v'')) (\<lambda>v.
     bind_res (getitem wc (Str ''a'')) (\<lambda>a.
     bind_res (getitem wc (Str ''vp'')) (\<lambda>vp.
     bind_res (getitem wc (Str ''ap'')) (\<lambda>ap.
     Inr ((v - a) + (vp - ap))))))"

definition rhs_C910Rpl :: "complex dict \<Rightarrow> complex result" where
  "rhs_C910Rpl wc =
     bind_res (getitem wc (Str ''v'')) (\<lambda>v.
     bind_res (getitem wc (Str ''a'')) (\<lambda>a.
     bind_res (getitem wc (Str ''vp'')) (\<lambda>vp.
     bind_res (getitem wc (Str ''ap'')) (\<lambda>ap.
     Inr ((v + a) + (vp + ap))))))"

definition rhs_C910Lmi :: "complex dict \<Rightarrow> complex result" where
  "rhs_C910Lmi wc =
     bind_res (getitem wc (Str ''v'')) (\<lambda>v.
     bind_res (getitem wc (Str ''a'')) (\<lambda>a.
     bind_res (getitem wc (Str ''vp'')) (\<lambda>vp.
     bind_res (getitem wc (Str ''ap'')) (\<lambda>ap.
     Inr ((v - a) - (vp - ap))))))"

definition rhs_C910Rmi :: "complex dict \<Rightarrow> complex result" where
  "rhs_C910Rmi wc =
     bind_res (getitem wc (Str ''v'')) (\<lambda>v.
     bind_res (getitem wc (Str ''a'')) (\<lambda>a.
     bind_res (getitem wc (Str ''vp'')) (\<lambda>vp.
     bind_res (getitem wc (Str ''ap'')) (\<lambda>ap.
     Inr ((v + a) - (vp + ap))))))"

definition rhs_A_perp1_L ::
  "complex \<Rightarrow> real dict \<Rightarrow> real \<Rightarrow> real \<Rightarrow> complex dict \<Rightarrow> complex result" where
  "rhs_A_perp1_L C910Lpl ha q2 mqh wc =
     bind_res (getitem ha (Str ''+V-+'')) (\<lambda>h.
     bind_res (getitem wc (Str ''7'')) (\<lambda>c7.
     bind_res (getitem wc (Str ''7p'')) (\<lambda>c7p.
     bind_res (py_cdiv (complex_of_real (2 * mqh) * (c7 + c7p)) q2) (\<lambda>d.
     bind_res (getitem ha (Str ''+T-+'')) (\<lambda>t.
     Inr (complex_of_real (sqrt 2) * (C910Lpl * complex_of_real h - d * complex_of_real t)))))))"

definition rhs_A_perp1_R ::
  "complex \<Rightarrow> real dict \<Rightarrow> real \<Rightarrow> real \<Rightarrow> complex dict \<Rightarrow> complex result" where
  "rhs_A_perp1_R C910Rpl ha q2 mqh wc =
     bind_res (getitem ha (Str ''+V-+'')) (\<lambda>h.
     bind_res (getitem wc (Str ''7'')) (\<lambda>c7.
     bind_res (getitem wc (Str ''7p'')) (\<lambda>c7p.
     bind_res (py_cdiv (complex_of_real (2 * mqh) * (c7 + c7p)) q2) (\<lambda>d.
     bind_res (getitem ha (Str ''+T-+'')) (\<lambda>t.
     Inr (complex_of_real (sqrt 2) * (C910Rpl * complex_of_real h - d * complex_of_real t)))))))"

definition rhs_A_para1_L ::
  "complex \<Rightarrow> real dict \<Rightarrow> real \<Rightarrow> real \<Rightarrow> complex dict \<Rightarrow> complex result" where
  "rhs_A_para1_L C910Lmi ha q2 mqh wc =
     bind_res (getitem ha (Str ''+A-+'')) (\<lambda>h.
     bind_res (getitem wc (Str ''7'')) (\<lambda>c7.
     bind_res (getitem wc (Str ''7p'')) (\<lambda>c7p.
     bind_res (py_cdiv (complex_of_real (2 * mqh) * (c7 - c7p)) q2) (\<lambda>d.
     bind_res (getitem ha (Str ''+T5-+'')) (\<lambda>t.
     Inr (- complex_of_real (sqrt 2) * (C910Lmi * complex_of_real h + d * complex_of_real t)))))))"

definition rhs_A_para1_R ::
  "complex \<Rightarrow> real dict \<Rightarrow> real \<Rightarrow> real \<Rightarrow> complex dict \<Rightarrow> complex result" where
  "rhs_A_para1_R C910Rmi ha q2 mqh wc =
     bind_res (getitem ha (Str ''+A-+'')) (\<lambda>h.
     bind_res (getitem wc (Str ''7'')) (\<lambda>c7.
     bind_res (getitem wc (Str ''7p'')) (\<lambda>c7p.
     bind_res (py_cdiv (complex_of_real (2 * mqh) * (c7 - c7p)) q2) (\<lambda>d.
     bind_res (getitem ha (Str ''+T5-+'')) (\<lambda>t.
     Inr (- complex_of_real (sqrt 2) * (C910Rmi * complex_of_real h + d * complex_of_real t)))))))"

definition rhs_A_perp0_L ::
  "complex \<Rightarrow> real dict \<Rightarrow> real \<Rightarrow> real \<Rightarrow> complex dict \<Rightarrow> complex result" where
  "rhs_A_perp0_L C910Lpl ha q2 mqh wc =
     bind_res (getitem ha (Str ''0V++'')) (\<lambda>h.
     bind_res (getitem wc (Str ''7'')) (\<lambda>c7.
     bind_res (getitem wc (Str ''7p'')) (\<lambda>c7p.
     bind_res (py_cdiv (complex_of_real (2 * mqh) * (c7 + c7p)) q2) (\<lambda>d.
     bind_res (getitem ha (Str ''0T++'')) (\<lambda>t.
     Inr (complex_of_real (sqrt 2) * (C910Lpl * complex_of_real h - d * complex_of_real t)))))))"

definition rhs_A_perp0_R ::
  "complex \<Rightarrow> real dict \<Rightarrow> real \<Rightarrow> real \<Rightarrow> complex dict \<Rightarrow> complex result" where
  "rhs_A_perp0_R C910Rpl ha q2 mqh wc =
     bind_res (getitem ha (Str ''0V++'')) (\<lambda>h.
     bind_res (getitem wc (Str ''7'')) (\<lambda>c7.
     bind_res (getitem wc (Str ''7p'')) (\<lambda>c7p.
     bind_res (py_cdiv (complex_of_real (2 * mqh) * (c7 + c7p)) q2) (\<lambda>d.
     bind_res (getitem ha (Str ''0T++'')) (\<lambda>t.
     Inr (complex_of_real (sqrt 2) * (C910Rpl * complex_of_real h - d * complex_of_real t)))))))"

definition rhs_A_para0_L ::
  "complex \<Rightarrow> real dict \<Rightarrow> real \<Rightarrow> real \<Rightarrow> complex dict \<Rightarrow> complex result" where
  "rhs_A_para0_L C910Lmi ha q2 mqh wc =
     bind_res (getitem ha (Str ''0A++'')) (\<lambda>h.
     bind_res (getitem wc (Str ''7'')) (\<lambda>c7.
     bind_res (getitem wc (Str ''7p'')) (\<lambda>c7p.
     bind_res (py_cdiv (complex_of_real (2 * mqh) * (c7 - c7p)) q2) (\<lambda>d.
     bind_res (getitem ha (Str ''0T5++'')) (\<lambda>t.
     Inr (- complex_of_real (sqrt 2) * (C910Lmi * complex_of_real h + d * complex_of_real t)))))))"

definition rhs_A_para0_R ::
  "complex \<Rightarrow> real dict \<Rightarrow> real \<Rightarrow> real \<Rightarrow> complex dict \<Rightarrow> complex result" where
  "rhs_A_para0_R C910Rmi ha q2 mqh wc =
     bind_res (getitem ha (Str ''0A++'')) (\<lambda>h.
     bind_res (getitem wc (Str ''7'')) (\<lambda>c7.
     bind_res (getitem wc (Str ''7p'')) (\<lambda>c7p.
     bind_res (py_cdiv (complex_of_real (2 * mqh) * (c7 - c7p)) q2) (\<lambda>d.
     bind_res (getitem ha (Str ''0T5++'')) (\<lambda>t.
     Inr (- complex_of_real (sqrt 2) * (C910Rmi * complex_of_real h + d * complex_of_real t)))))))"

text \<open>
  The function: the assignments in order, and the last statement, which multiplies
  every value of the dictionary by \<open>prefactor\<close>.
\<close>

definition transverity_amps ::
  "real dict \<Rightarrow> real \<Rightarrow> real \<Rightarrow> real \<Rightarrow> real \<Rightarrow> real \<Rightarrow> complex dict \<Rightarrow> complex
     \<Rightarrow> complex dict result" where
  "transverity_amps ha q2 mLb mL mqh mql wc prefactor =
     bind_res (rhs_C910Lpl wc) (\<lambda>C910Lpl.
     bind_res (rhs_C910Rpl wc) (\<lambda>C910Rpl.
     bind_res (rhs_C910Lmi wc) (\<lambda>C910Lmi.
     bind_res (rhs_C910Rmi wc) (\<lambda>C910Rmi.
     let A = Map.empty in
     bind_res (rhs_A_perp1_L C910Lpl ha q2 mqh wc) (\<lambda>x.
     let A = A(Tup [''perp1'', ''L''] \<mapsto> x) in
     bind_res (rhs_A_perp1_R C910Rpl ha q2 mqh wc) (\<lambda>x.
     let A = A(Tup [''perp1'', ''R''] \<mapsto> x) in
     bind_res (rhs_A_para1_L C910Lmi ha q2 mqh wc) (\<lambda>x.
     let A = A(Tup [''para1'', ''L''] \<mapsto> x) in
     bind_res (rhs_A_para1_R C910Rmi ha q2 mqh wc) (\<lambda>x.
     let A = A(Tup [''para1'', ''R''] \<mapsto> x) in
     bind_res (rhs_A_perp0_L C910Lpl ha q2 mqh wc) (\<lambda>x.
     let A = A(Tup [''perp0'', ''L''] \<mapsto> x) in
     bind_res (rhs_A_perp0_R C910Rpl ha q2 mqh wc) (\<lambda>x.
     let A = A(Tup [''perp0'', ''R''] \<mapsto> x) in
     bind_res (rhs_A_para0_L C910Lmi ha q2 mqh wc) (\<lambda>x.
     let A = A(Tup [''para0'', ''L''] \<mapsto> x) in
     bind_res (rhs_A_para0_R C910Rmi ha q2 mqh wc) (\<lambda>x.
     let A = A(Tup [''para0'', ''R''] \<mapsto> x) in
     Inr (\<lambda>k. map_option (\<lambda>v. prefactor * v) (A k))))))))))))))"

subsection \<open>Angular coefficients\<close>

text \<open>
  \<open>angular_coefficients(ta, alpha)\<close>. Again the right-hand side of every assignment
  \<open>K[...] = ...\<close> is a function of its own: the lookups \<open>ta['perp1', 'R']\<close>, ... in the
  order in which the expression reads them, then the value. \<open>abs(z)**2\<close> is
  \<open>(cmod z)\<^sup>2\<close>, \<open>z.conj()\<close> is \<open>cnj z\<close>, \<open>.real\<close> and \<open>.imag\<close> are \<open>Re\<close> and
  \<open>Im\<close>.
\<close>

definition rhs_K_1ss :: "complex dict \<Rightarrow> real result" where
  "rhs_K_1ss ta =
     bind_res (getitem ta (Tup [''perp1'', ''R''])) (\<lambda>perp1R.
     bind_res (getitem ta (Tup [''perp1'', ''L''])) (\<lambda>perp1L.
     bind_res (getitem ta (Tup [''para1'', ''R''])) (\<lambda>para1R.
     bind_res (getitem ta (Tup [''para1'', ''L''])) (\<lambda>para1L.
     bind_res (getitem ta (Tup [''perp0'', ''R''])) (\<lambda>perp0R.
     bind_res (getitem ta (Tup [''perp0'', ''L''])) (\<lambda>perp0L.
     bind_res (getitem ta (Tup [''para0'', ''R''])) (\<lambda>para0R.
     bind_res (getitem ta (Tup [''para0'', ''L''])) (\<lambda>para0L.
     Inr (1 / 4 * ((cmod perp1R)\<^sup>2 + (cmod perp1L)\<^sup>2 + (cmod para1R)\<^sup>2 + (cmod para1L)\<^sup>2
            + 2 * (cmod perp0R)\<^sup>2 + 2 * (cmod perp0L)\<^sup>2 + 2 * (cmod para0R)\<^sup>2 + 2 * (cmod para0L)\<^sup>2))))))))))"

definition rhs_K_1cc :: "complex dict \<Rightarrow> real result" where
  "rhs_K_1cc ta =
     bind_res (getitem ta (Tup [''perp1'', ''R''])) (\<lambda>perp1R.
     bind_res (getitem ta (Tup [''perp1'', ''L''])) (\<lambda>perp1L.
     bind_res (getitem ta (Tup [''para1'', ''R''])) (\<lambda>para1R.
     bind_res (getitem ta (Tup [''para1'', ''L''])) (\<lambda>para1L.
     Inr (1 / 2 * ((cmod perp1R)\<^sup>2 + (cmod perp1L)\<^sup>2 + (cmod para1R)\<^sup>2 + (cmod para1L)\<^sup>2))))))"

definition rhs_K_1c :: "complex dict \<Rightarrow> real result" where
  "rhs_K_1c ta =
     bind_res (getitem ta (Tup [''perp1'', ''R''])) (\<lambda>perp1R.
     bind_res (getitem ta (Tup [''para1'', ''R''])) (\<lambda>para1R.
     bind_res (getitem ta (Tup [''perp1'', ''L''])) (\<lambda>perp1L.
     bind_res (getitem ta (Tup [''para1'', ''L''])) (\<lambda>para1L.
     Inr (- Re (perp1R * cnj para1R - perp1L * cnj para1L))))))"

definition rhs_K_2ss :: "complex dict \<Rightarrow> real \<Rightarrow> real result" where
  "rhs_K_2ss ta alpha =
     bind_res (getitem ta (Tup [''perp1'', ''R''])) (\<lambda>perp1R.
     bind_res (getitem ta (Tup [''para1'', ''R''])) (\<lambda>para1R.
     bind_res (getitem ta (Tup [''perp0'', ''R''])) (\<lambda>perp0R.
     bind_res (getitem ta (Tup [''para0'', ''R''])) (\<lambda>para0R.
     bind_res (getitem ta (Tup [''perp1'', ''L''])) (\<lambda>perp1L.
     bind_res (getitem ta (Tup [''para1'', ''L''])) (\<lambda>para1L.
     bind_res (getitem ta (Tup [''perp0'', ''L''])) (\<lambda>perp0L.
     bind_res (getitem ta (Tup [''para0'', ''L''])) (\<lambda>para0L.
     Inr (alpha / 2 * Re (perp1R * cnj para1R + 2 * perp0R * cnj para0R
            + perp1L * cnj para1L + 2 * perp0L * cnj para0L))))))))))"

definition rhs_K_2cc :: "complex dict \<Rightarrow> real \<Rightarrow> real result" where
  "rhs_K_2cc ta alpha =
     bind_res (getitem ta (Tup [''perp1'', ''R''])) (\<lambda>perp1R.
     bind_res (getitem ta (Tup [''para1'', ''R''])) (\<lambda>para1R.
     bind_res (getitem ta (Tup [''perp1'', ''L''])) (\<lambda>perp1L.
     bind_res (getitem ta (Tup [''para1'', ''L''])) (\<lambda>para1L.
     Inr (alpha * Re (perp1R * cnj para1R + perp1L * cnj para1L))))))"

definition rhs_K_2c :: "complex dict \<Rightarrow> real \<Rightarrow> real result" where
  "rhs_K_2c ta alpha =
     bind_res (getitem ta (Tup [''perp1'', ''R''])) (\<lambda>perp1R.
     bind_res (getitem ta (Tup [''perp1'', ''L''])) (\<lambda>perp1L.
     bind_res (getitem ta (Tup [''para1'', ''R''])) (\<lambda>para1R.
     bind_res (getitem ta (Tup [''para1'', ''L''])) (\<lambda>para1L.
     Inr (- alpha / 2 * ((cmod perp1R)\<^sup>2 - (cmod perp1L)\<^sup>2 + (cmod para1R)\<^sup>2 - (cmod para1L)\<^sup>2))))))"

definition rhs_K_3sc :: "complex dict \<Rightarrow> real \<Rightarrow> real result" where
  "rhs_K_3sc ta alpha =
     bind_res (getitem ta (Tup [''perp1'', ''R''])) (\<lambda>perp1R.
     bind_res (getitem ta (Tup [''perp0'', ''R''])) (\<lambda>perp0R.
     bind_res (getitem ta (Tup [''para1'', ''R''])) (\<lambda>para1R.
     bind_res (getitem ta (Tup [''para0'', ''R''])) (\<lambda>para0R.
     bind_res (getitem ta (Tup [''perp1'', ''L''])) (\<lambda>perp1L.
     bind_res (getitem ta (Tup [''perp0'', ''L''])) (\<lambda>perp0L.
     bind_res (getitem ta (Tup [''para1'', ''L''])) (\<lambda>para1L.
     bind_res (getitem ta (Tup [''para0'', ''L''])) (\<lambda>para0L.
     Inr (alpha / sqrt 2 * Im (perp1R * cnj perp0R - para1R * cnj para0R
            + perp1L * cnj perp0L - para1L * cnj para0L))))))))))"

definition rhs_K_3s :: "complex dict \<Rightarrow> real \<Rightarrow> real result" where
  "rhs_K_3s ta alpha =
     bind_res (getitem ta (Tup [''perp1'', ''R''])) (\<lambda>perp1R.
     bind_res (getitem ta (Tup [''para0'', ''R''])) (\<lambda>para0R.
     bind_res (getitem ta (Tup [''para1'', ''R''])) (\<lambda>para1R.
     bind_res (getitem ta (Tup [''perp0'', ''R''])) (\<lambda>perp0R.
     bind_res (getitem ta (Tup [''perp1'', ''L''])) (\<lambda>perp1L.
     bind_res (getitem ta (Tup [''para0'', ''L''])) (\<lambda>para0L.
     bind_res (getitem ta (Tup [''para1'', ''L''])) (\<lambda>para1L.
     bind_res (getitem ta (Tup [''perp0'', ''L''])) (\<lambda>perp0L.
     Inr (alpha / sqrt 2 * Im (perp1R * cnj para0R - para1R * cnj perp0R
            - perp1L * cnj para0L + para1L * cnj perp0L))))))))))"

definition rhs_K_4sc :: "complex dict \<Rightarrow> real \<Rightarrow> real result" where
  "rhs_K_4sc ta alpha =
     bind_res (getitem ta (Tup [''perp1'', ''R''])) (\<lambda>perp1R.
     bind_res (getitem ta (Tup [''para0'', ''R''])) (\<lambda>para0R.
     bind_res (getitem ta (Tup [''para1'', ''R''])) (\<lambda>para1R.
     bind_res (getitem ta (Tup [''perp0'', ''R''])) (\<lambda>perp0R.
     bind_res (getitem ta (Tup [''perp1'', ''L''])) (\<lambda>perp1L.
     bind_res (getitem ta (Tup [''para0'', ''L''])) (\<lambda>para0L.
     bind_res (getitem ta (Tup [''para1'', ''L''])) (\<lambda>para1L.
     bind_res (getitem ta (Tup [''perp0'', ''L''])) (\<lambda>perp0L.
     Inr (alpha / sqrt 2 * Im (perp1R * cnj para0R - para1R * cnj perp0R
            + perp1L * cnj para0L - para1L * cnj perp0L))))))))))"

definition rhs_K_4s :: "complex dict \<Rightarrow> real \<Rightarrow> real result" where
  "rhs_K_4s ta alpha =
     bind_res (getitem ta (Tup [''perp1'', ''R''])) (\<lambda>perp1R.
     bind_res (getitem ta (Tup [''perp0'', ''R''])) (\<lambda>perp0R.
     bind_res (getitem ta (Tup [''para1'', ''R''])) (\<lambda>para1R.
     bind_res (getitem ta (Tup [''para0'', ''R''])) (\<lambda>para0R.
     bind_res (getitem ta (Tup [''perp1'', ''L''])) (\<lambda>perp1L.
     bind_res (getitem ta (Tup [''perp0'', ''L''])) (\<lambda>perp0L.
     bind_res (getitem ta (Tup [''para1'', ''L''])) (\<lambda>para1L.
     bind_res (getitem ta (Tup [''para0'', ''L''])) (\<lambda>para0L.
     Inr (alpha / sqrt 2 * Im (perp1R * cnj perp0R - para1R * cnj para0R
            - perp1L * cnj perp0L + para1L * cnj para0L))))))))))"

definition angular_coefficients :: "complex dict \<Rightarrow> real \<Rightarrow> real dict result" where
  "angular_coefficients ta alpha =
    (let K = Map.empty in
     bind_res (rhs_K_1ss ta) (\<lambda>x.
     let K = K(Str ''1ss'' \<mapsto> x) in
     bind_res (rhs_K_1cc ta) (\<lambda>x.
     let K = K(Str ''1cc'' \<mapsto> x) in
     bind_res (rhs_K_1c ta) (\<lambda>x.
     let K = K(Str ''1c'' \<mapsto> x) in
     bind_res (rhs_K_2ss ta alpha) (\<lambda>x.
     let K = K(Str ''2ss'' \<mapsto> x) in
     bind_res (rhs_K_2cc ta alpha) (\<lambda>x.
     let K = K(Str ''2cc'' \<mapsto> x) in
     bind_res (rhs_K_2c ta alpha) (\<lambda>x.
     let K = K(Str ''2c'' \<mapsto> x) in
     bind_res (rhs_K_3sc ta alpha) (\<lambda>x.
     let K = K(Str ''3sc'' \<mapsto> x) in
     bind_res (rhs_K_3s ta alpha) (\<lambda>x.
     let K = K(Str ''3s'' \<mapsto> x) in
     bind_res (rhs_K_4sc ta alpha) (\<lambda>x.
     let K = K(Str ''4sc'' \<mapsto> x) in
     bind_res (rhs_K_4s ta alpha) (\<lambda>x.
     let K = K(Str ''4s'' \<mapsto> x) in
     Inr K)))))))))))"

subsection \<open>Collaborators outside the module\<close>

text \<open>
  The module calls into the rest of flavio: the configuration, the running quark mass
  and coupling, the form-factor prediction, the Wilson coefficients, the CKM factor,
  \<open>lambda_K\<close> and the numeric integrator. None of them is defined in this module, so
  they are parameters of the model, each free to return a value or to raise.
  \<open>'w\<close> is the type of the Wilson-coefficient object, \<open>'c\<close> the type of what
  \<open>wctot_dict\<close> returns; both are only passed on.
\<close>

record ('w, 'c) externals =
  config_scale :: "real result"
    \<comment> \<open>\<open>flavio.config['renormalization scale']['lambdab']\<close>\<close>
  get_mb :: "real dict \<Rightarrow> real \<Rightarrow> real result"
    \<comment> \<open>\<open>flavio.physics.running.running.get_mb(par, scale)\<close>\<close>
  ff_prediction :: "real dict \<Rightarrow> real \<Rightarrow> real dict result"
    \<comment> \<open>\<open>AuxiliaryQuantity.get_instance('Lambdab->Lambda form factor').prediction(par_dict=par, wc_obj=None, q2=q2)\<close>\<close>
  wctot_dict :: "'w \<Rightarrow> string \<Rightarrow> real \<Rightarrow> real dict \<Rightarrow> 'c result"
    \<comment> \<open>\<open>wilsoncoefficients.wctot_dict(wc_obj, sector, scale, par)\<close>\<close>
  get_wceff :: "real \<Rightarrow> 'c \<Rightarrow> real dict \<Rightarrow> string \<Rightarrow> string \<Rightarrow> string \<Rightarrow> real \<Rightarrow> complex dict result"
    \<comment> \<open>\<open>wilsoncoefficients.get_wceff(q2, wc, par, 'Lambdab', 'Lambda', lep, scale)\<close>\<close>
  xi_t_bs :: "real dict \<Rightarrow> complex result"
    \<comment> \<open>\<open>flavio.physics.ckm.xi('t','bs')(par)\<close>\<close>
  get_alpha_e :: "real dict \<Rightarrow> real \<Rightarrow> real result"
    \<comment> \<open>\<open>flavio.physics.running.running.get_alpha(par, scale)['alpha_e']\<close>\<close>
  lambda_K :: "real \<Rightarrow> real \<Rightarrow> real \<Rightarrow> real result"
    \<comment> \<open>\<open>flavio.physics.bdecays.common.lambda_K(a, b, c)\<close>\<close>
  nintegrate :: "(real \<Rightarrow> real result) \<Rightarrow> real \<Rightarrow> real \<Rightarrow> real result"
    \<comment> \<open>\<open>flavio.math.integrate.nintegrate(f, a, b)\<close>\<close>

text \<open>
  \<open>x**(1/4.)\<close> on a Python float: the real fourth root of a non-negative \<open>x\<close>, and the
  principal complex fourth root of a negative one.
\<close>

definition py_pow_quarter :: "real \<Rightarrow> complex" where
  "py_pow_quarter x =
    (if 0 \<le> x then complex_of_real (x powr (1 / 4))
     else complex_of_real ((- x) powr (1 / 4)) * cis (pi / 4))"

subsection \<open>The orchestration: from a kinematic point to an observable\<close>

text \<open>
  \<open>get_transverity_amps(q2, wc_obj, par_dict, lep, cp_conjugate)\<close>. The name
  \<open>conjugate_par\<close> is neither defined nor imported by the module (line 5 imports
  \<open>lambda_K, beta_l, meson_quark, meson_ff\<close> only), so the branch of the set flag
  raises \<open>NameError\<close> when it evaluates the name.
\<close>

definition get_transverity_amps ::
  "('w, 'c) externals \<Rightarrow> real \<Rightarrow> 'w \<Rightarrow> real dict \<Rightarrow> string \<Rightarrow> bool \<Rightarrow> complex dict result" where
  "get_transverity_amps ext q2 wc_obj par_dict lep cp_conjugate =
    (let par = par_dict in
     bind_res (if cp_conjugate then Inl (NameError ''conjugate_par'') else Inr par) (\<lambda>par.
     bind_res (config_scale ext) (\<lambda>scale.
     bind_res (getitem par (Str ''m_Lambdab'')) (\<lambda>mLb.
     bind_res (getitem par (Str ''m_Lambda'')) (\<lambda>mL.
     bind_res (get_mb ext par scale) (\<lambda>mb.
     bind_res (ff_prediction ext par q2) (\<lambda>ff.
     bind_res (wctot_dict ext wc_obj (''bs'' @ lep @ lep) scale par) (\<lambda>wc.
     bind_res (get_wceff ext q2 wc par ''Lambdab'' ''Lambda'' lep scale) (\<lambda>wc_eff.
     bind_res (helicity_amps q2 mLb mL ff) (\<lambda>ha.
     bind_res (xi_t_bs ext par) (\<lambda>xi_t.
     bind_res (get_alpha_e ext par scale) (\<lambda>alphaem.
     bind_res (lambda_K ext (mLb\<^sup>2) (mL\<^sup>2) q2) (\<lambda>la_K.
     bind_res (getitem par (Str ''GF'')) (\<lambda>GF.
     bind_res (py_sqrt q2) (\<lambda>r.
     bind_res (py_sqrt (3 * 2 * mLb ^ 3 * pi ^ 5)) (\<lambda>s.
     bind_res (py_cdiv (complex_of_real GF * xi_t * complex_of_real alphaem
                          * complex_of_real r * py_pow_quarter la_K) s) (\<lambda>n.
     let N = n / 32;
         ta_ff = transverity_amps ha q2 mLb mL mb 0 wc_eff N
     in ta_ff)))))))))))))))))"

text \<open>\<open>get_obs(function, q2, wc_obj, par, lep)\<close>\<close>

definition get_obs ::
  "('w, 'c) externals \<Rightarrow> (real dict \<Rightarrow> real result) \<Rightarrow> real \<Rightarrow> 'w \<Rightarrow> real dict \<Rightarrow> string
     \<Rightarrow> real result" where
  "get_obs ext function q2 wc_obj par lep =
     bind_res (getitem par (Str (''m_'' @ lep))) (\<lambda>ml.
     bind_res (getitem par (Str ''m_Lambdab'')) (\<lambda>mLb.
     bind_res (getitem par (Str ''m_Lambda'')) (\<lambda>mL.
     if q2 < 4 * ml\<^sup>2 \<or> q2 > (mLb - mL)\<^sup>2 then Inr 0
     else
       bind_res (get_transverity_amps ext q2 wc_obj par lep False) (\<lambda>ta.
       bind_res (getitem par (Str ''Lambda->ppi alpha_-'')) (\<lambda>alpha.
       bind_res (angular_coefficients ta alpha) (\<lambda>K.
       function K))))))"

text \<open>\<open>dGdq2(K)\<close>\<close>

definition dGdq2 :: "real dict \<Rightarrow> real result" where
  "dGdq2 K =
     bind_res (getitem K (Str ''1ss'')) (\<lambda>k1ss.
     bind_res (getitem K (Str ''1cc'')) (\<lambda>k1cc.
     Inr (2 * k1ss + k1cc)))"

text \<open>\<open>dbrdq2(q2, wc_obj, par, lep)\<close>\<close>

definition dbrdq2 :: "('w, 'c) externals \<Rightarrow> real \<Rightarrow> 'w \<Rightarrow> real dict \<Rightarrow> string \<Rightarrow> real result" where
  "dbrdq2 ext q2 wc_obj par lep =
     bind_res (getitem par (Str ''tau_Lambdab'')) (\<lambda>tauLb.
     bind_res (get_obs ext dGdq2 q2 wc_obj par lep) (\<lambda>g.
     Inr (tauLb * g)))"

text \<open>\<open>dbrdq2_int(q2min, q2max, wc_obj, par, lep)\<close>\<close>

definition dbrdq2_int ::
  "('w, 'c) externals \<Rightarrow> real \<Rightarrow> real \<Rightarrow> 'w \<Rightarrow> real dict \<Rightarrow> string \<Rightarrow> real result" where
  "dbrdq2_int ext q2min q2max wc_obj par lep =
    (let obs = (\<lambda>q2. dbrdq2 ext q2 wc_obj par lep) in
     bind_res (nintegrate ext obs q2min q2max) (\<lambda>i.
     py_div i (q2max - q2min)))"

subsection \<open>Shapes and example inputs\<close>

text \<open>
  The dictionary that lines 17 to 32 of \<open>helicity_amps\<close> build from the eight values of
  lines 17 to 24: lines 25 to 32 copy the V and T entries and negate the A and T5 entries.
\<close>

definition helicity_dict :: "real \<Rightarrow> real \<Rightarrow> real \<Rightarrow> real \<Rightarrow> real \<Rightarrow> real \<Rightarrow> real \<Rightarrow> real \<Rightarrow> real dict" where
  "helicity_dict a b c d e f g h = [Str ''0V++'' \<mapsto> a, Str ''+V-+'' \<mapsto> b, Str ''0A++'' \<mapsto> c, Str ''+A-+'' \<mapsto> d,
     Str ''0T++'' \<mapsto> e, Str ''+T-+'' \<mapsto> f, Str ''0T5++'' \<mapsto> g, Str ''+T5-+'' \<mapsto> h,
     Str ''0V--'' \<mapsto> a, Str ''+V+-'' \<mapsto> b, Str ''0A--'' \<mapsto> - c, Str ''+A+-'' \<mapsto> - d,
     Str ''0T--'' \<mapsto> e, Str ''+T+-'' \<mapsto> f, Str ''0T5--'' \<mapsto> - g, Str ''+T5+-'' \<mapsto> - h]"

text \<open>A form-factor set with all eight entries, for evaluating the functions.\<close>

definition example_ff :: "real dict" where
  "example_ff = [Str ''fV0'' \<mapsto> 1, Str ''fVperp'' \<mapsto> 2, Str ''fA0'' \<mapsto> 3, Str ''fAperp'' \<mapsto> 4,
     Str ''fT0'' \<mapsto> 5, Str ''fTperp'' \<mapsto> 6, Str ''fT50'' \<mapsto> 7, Str ''fT5perp'' \<mapsto> 8]"

text \<open>
  The dictionary that \<open>transverity_amps\<close> builds, from its eight values, and the one
  that \<open>angular_coefficients\<close> builds, from its ten values.
\<close>

definition transversity_dict ::
  "complex \<Rightarrow> complex \<Rightarrow> complex \<Rightarrow> complex \<Rightarrow> complex \<Rightarrow> complex \<Rightarrow> complex \<Rightarrow> complex \<Rightarrow> complex dict" where
  "transversity_dict perp1L perp1R para1L para1R perp0L perp0R para0L para0R =
     [Tup [''perp1'', ''L''] \<mapsto> perp1L, Tup [''perp1'', ''R''] \<mapsto> perp1R,
      Tup [''para1'', ''L''] \<mapsto> para1L, Tup [''para1'', ''R''] \<mapsto> para1R,
      Tup [''perp0'', ''L''] \<mapsto> perp0L, Tup [''perp0'', ''R''] \<mapsto> perp0R,
      Tup [''para0'', ''L''] \<mapsto> para0L, Tup [''para0'', ''R''] \<mapsto> para0R]"

definition angular_dict ::
  "real \<Rightarrow> real \<Rightarrow> real \<Rightarrow> real \<Rightarrow> real \<Rightarrow> real \<Rightarrow> real \<Rightarrow> real \<Rightarrow> real \<Rightarrow> real \<Rightarrow> real dict" where
  "angular_dict k1ss k1cc k1c k2ss k2cc k2c k3sc k3s k4sc k4s =
     [Str ''1ss'' \<mapsto> k1ss, Str ''1cc'' \<mapsto> k1cc, Str ''1c'' \<mapsto> k1c,
      Str ''2ss'' \<mapsto> k2ss, Str ''2cc'' \<mapsto> k2cc, Str ''2c'' \<mapsto> k2c,
      Str ''3sc'' \<mapsto> k3sc, Str ''3s'' \<mapsto> k3s, Str ''4sc'' \<mapsto> k4sc, Str ''4s'' \<mapsto> k4s]"

text \<open>
  A Wilson-coefficient bundle, a helicity amplitude set and a transversity amplitude
  set with all their entries, for evaluating the functions.
\<close>

definition example_wc :: "complex dict" where
  "example_wc = [Str ''v'' \<mapsto> 4, Str ''a'' \<mapsto> - 4, Str ''vp'' \<mapsto> \<i>, Str ''ap'' \<mapsto> 1,
     Str ''7'' \<mapsto> - 1, Str ''7p'' \<mapsto> 2 * \<i>]"

definition example_ha :: "real dict" where
  "example_ha = helicity_dict 1 2 3 4 5 6 7 8"

definition example_ta :: "complex dict" where
  "example_ta = transversity_dict 1 \<i> 2 1 1 1 \<i> 1"

text \<open>
  A parameter table and a set of collaborators on which the whole pipeline returns:
  a muon mass of 1, \<open>m_Lambdab = 5\<close> and \<open>m_Lambda = 1\<close>, so that the kinematic window
  is \<open>[4, 16]\<close>; \<open>lambda_K\<close> is the triangle function, and the integrator is the
  midpoint rule with one sample.
\<close>

definition example_par :: "real dict" where
  "example_par = [Str ''m_mu'' \<mapsto> 1, Str ''m_Lambdab'' \<mapsto> 5, Str ''m_Lambda'' \<mapsto> 1,
     Str ''tau_Lambdab'' \<mapsto> 2, Str ''Lambda->ppi alpha_-'' \<mapsto> 1 / 2, Str ''GF'' \<mapsto> 1]"

definition example_ext :: "(unit, unit) externals" where
  "example_ext = \<lparr>
     config_scale = Inr 4,
     get_mb = (\<lambda>par scale. Inr 3),
     ff_prediction = (\<lambda>par q2. Inr example_ff),
     wctot_dict = (\<lambda>wc_obj sector scale par. Inr ()),
     get_wceff = (\<lambda>q2 wc par B V lep scale. Inr example_wc),
     xi_t_bs = (\<lambda>par. Inr \<i>),
     get_alpha_e = (\<lambda>par scale. Inr 1),
     lambda_K = (\<lambda>a b c. Inr (a\<^sup>2 + b\<^sup>2 + c\<^sup>2 - 2 * (a * b + b * c + a * c))),
     nintegrate = (\<lambda>f a b. bind_res (f ((a + b) / 2)) (\<lambda>y. Inr (y * (b - a))))
   \<rparr>"

section \<open>Properties\<close>

subsection \<open>Exceptions: how a computation returns\<close>

lemma bind_res_Inr [simp]: "bind_res (Inr v) f = f v"
  by (simp add: bind_res_def)

lemma bind_res_Inl [simp]: "bind_res (Inl e) f = Inl e"
  by (simp add: bind_res_def)

lemma bind_res_InrE:
  assumes "bind_res m f = Inr y"
  obtains v where "m = Inr v" and "f v = Inr y"
  using assms by (cases m) (simp_all add: bind_res_def)

lemma getitem_eq_Inr [simp]: "getitem d k = Inr v \<longleftrightarrow> d k = Some v"
  by (simp add: getitem_def split: option.split)

lemma py_sqrt_eq_Inr [simp]: "py_sqrt x = Inr r \<longleftrightarrow> 0 \<le> x \<and> r = sqrt x"
  by (auto simp: py_sqrt_def)

lemma py_div_eq_Inr [simp]: "py_div a b = Inr c \<longleftrightarrow> b \<noteq> 0 \<and> c = a / b"
  by (auto simp: py_div_def)

lemma py_cdiv_eq_Inr [simp]: "py_cdiv a b = Inr c \<longleftrightarrow> b \<noteq> 0 \<and> c = a / complex_of_real b"
  by (auto simp: py_cdiv_def)

subsection \<open>The dictionary of helicity amplitudes\<close>

lemma helicity_dict_lookup:
  "helicity_dict a b c d e f g h (Str ''0V++'') = Some a"
  "helicity_dict a b c d e f g h (Str ''+V-+'') = Some b"
  "helicity_dict a b c d e f g h (Str ''0A++'') = Some c"
  "helicity_dict a b c d e f g h (Str ''+A-+'') = Some d"
  "helicity_dict a b c d e f g h (Str ''0T++'') = Some e"
  "helicity_dict a b c d e f g h (Str ''+T-+'') = Some f"
  "helicity_dict a b c d e f g h (Str ''0T5++'') = Some g"
  "helicity_dict a b c d e f g h (Str ''+T5-+'') = Some h"
  "helicity_dict a b c d e f g h (Str ''0V--'') = Some a"
  "helicity_dict a b c d e f g h (Str ''+V+-'') = Some b"
  "helicity_dict a b c d e f g h (Str ''0A--'') = Some (- c)"
  "helicity_dict a b c d e f g h (Str ''+A+-'') = Some (- d)"
  "helicity_dict a b c d e f g h (Str ''0T--'') = Some e"
  "helicity_dict a b c d e f g h (Str ''+T+-'') = Some f"
  "helicity_dict a b c d e f g h (Str ''0T5--'') = Some (- g)"
  "helicity_dict a b c d e f g h (Str ''+T5+-'') = Some (- h)"
  by (simp_all add: helicity_dict_def)

lemma card_dom_helicity_dict: "card (dom (helicity_dict a b c d e f g h)) = 16"
  by (simp add: helicity_dict_def)

lemma helicity_amps_valid:
  assumes ff: "ff (Str ''fV0'') = Some fV0" "ff (Str ''fVperp'') = Some fVperp"
      "ff (Str ''fA0'') = Some fA0" "ff (Str ''fAperp'') = Some fAperp"
      "ff (Str ''fT0'') = Some fT0" "ff (Str ''fTperp'') = Some fTperp"
      "ff (Str ''fT50'') = Some fT50" "ff (Str ''fT5perp'') = Some fT5perp"
    and q2: "0 < q2"
    and sm: "0 \<le> (mLb - mL)\<^sup>2 - q2"
    and sp: "0 \<le> (mLb + mL)\<^sup>2 - q2"
  shows "helicity_amps q2 mLb mL ff = Inr (helicity_dict
      (fV0 * (mLb + mL) / sqrt q2 * sqrt ((mLb - mL)\<^sup>2 - q2))
      (- fVperp * sqrt (2 * ((mLb - mL)\<^sup>2 - q2)))
      (fA0 * (mLb - mL) / sqrt q2 * sqrt ((mLb + mL)\<^sup>2 - q2))
      (- fAperp * sqrt (2 * ((mLb + mL)\<^sup>2 - q2)))
      (- fT0 * sqrt q2 * sqrt ((mLb - mL)\<^sup>2 - q2))
      (fTperp * (mLb + mL) * sqrt (2 * ((mLb - mL)\<^sup>2 - q2)))
      (fT50 * sqrt q2 * sqrt ((mLb + mL)\<^sup>2 - q2))
      (- fT5perp * (mLb - mL) * sqrt (2 * ((mLb + mL)\<^sup>2 - q2))))"
proof -
  have s1: "py_sqrt q2 = Inr (sqrt q2)" using q2 by (simp add: py_sqrt_def)
  have s2: "py_sqrt ((mLb - mL)\<^sup>2 - q2) = Inr (sqrt ((mLb - mL)\<^sup>2 - q2))"
    using sm by (simp add: py_sqrt_def)
  have s3: "py_sqrt ((mLb + mL)\<^sup>2 - q2) = Inr (sqrt ((mLb + mL)\<^sup>2 - q2))"
    using sp by (simp add: py_sqrt_def)
  have s4: "py_sqrt (2 * ((mLb - mL)\<^sup>2 - q2)) = Inr (sqrt (2 * ((mLb - mL)\<^sup>2 - q2)))"
    using sm by (simp add: py_sqrt_def)
  have s5: "py_sqrt (2 * ((mLb + mL)\<^sup>2 - q2)) = Inr (sqrt (2 * ((mLb + mL)\<^sup>2 - q2)))"
    using sp by (simp add: py_sqrt_def)
  have d: "\<And>a. py_div a (sqrt q2) = Inr (a / sqrt q2)"
    using q2 by (simp add: py_div_def)
  have g: "getitem ff (Str ''fV0'') = Inr fV0" "getitem ff (Str ''fVperp'') = Inr fVperp"
      "getitem ff (Str ''fA0'') = Inr fA0" "getitem ff (Str ''fAperp'') = Inr fAperp"
      "getitem ff (Str ''fT0'') = Inr fT0" "getitem ff (Str ''fTperp'') = Inr fTperp"
      "getitem ff (Str ''fT50'') = Inr fT50" "getitem ff (Str ''fT5perp'') = Inr fT5perp"
    using ff by (simp_all add: getitem_def)
  show ?thesis
    unfolding helicity_amps_def Let_def helicity_dict_def
    by (simp only: g s1 s2 s3 s4 s5 d bind_res_Inr) (simp add: getitem_def)
qed

lemma example_ff_lookup:
  "example_ff (Str ''fV0'') = Some 1" "example_ff (Str ''fVperp'') = Some 2"
  "example_ff (Str ''fA0'') = Some 3" "example_ff (Str ''fAperp'') = Some 4"
  "example_ff (Str ''fT0'') = Some 5" "example_ff (Str ''fTperp'') = Some 6"
  "example_ff (Str ''fT50'') = Some 7" "example_ff (Str ''fT5perp'') = Some 8"
  by (simp_all add: example_ff_def)

lemma helicity_amps_InrD:
  assumes "helicity_amps q2 mLb mL ff = Inr H"
  shows "\<exists>fV0 fVperp fA0 fAperp fT0 fTperp fT50 fT5perp.
      ff (Str ''fV0'') = Some fV0 \<and> ff (Str ''fVperp'') = Some fVperp \<and>
      ff (Str ''fA0'') = Some fA0 \<and> ff (Str ''fAperp'') = Some fAperp \<and>
      ff (Str ''fT0'') = Some fT0 \<and> ff (Str ''fTperp'') = Some fTperp \<and>
      ff (Str ''fT50'') = Some fT50 \<and> ff (Str ''fT5perp'') = Some fT5perp \<and>
      0 < q2 \<and> 0 \<le> (mLb - mL)\<^sup>2 - q2 \<and> 0 \<le> (mLb + mL)\<^sup>2 - q2 \<and>
      H = helicity_dict
      (fV0 * (mLb + mL) / sqrt q2 * sqrt ((mLb - mL)\<^sup>2 - q2))
      (- fVperp * sqrt (2 * ((mLb - mL)\<^sup>2 - q2)))
      (fA0 * (mLb - mL) / sqrt q2 * sqrt ((mLb + mL)\<^sup>2 - q2))
      (- fAperp * sqrt (2 * ((mLb + mL)\<^sup>2 - q2)))
      (- fT0 * sqrt q2 * sqrt ((mLb - mL)\<^sup>2 - q2))
      (fTperp * (mLb + mL) * sqrt (2 * ((mLb - mL)\<^sup>2 - q2)))
      (fT50 * sqrt q2 * sqrt ((mLb + mL)\<^sup>2 - q2))
      (- fT5perp * (mLb - mL) * sqrt (2 * ((mLb + mL)\<^sup>2 - q2)))"
  using assms unfolding helicity_amps_def Let_def helicity_dict_def
  apply (elim bind_res_InrE)
  apply (simp only: getitem_eq_Inr py_sqrt_eq_Inr py_div_eq_Inr)
  apply (elim conjE)
  apply (simp)
  apply (auto simp: less_le)
  done


text \<open>
  Why the masses must be non-negative: for \<open>mLb = 1\<close>, \<open>mL = - 1\<close> and \<open>q2 = 1\<close> the point
  satisfies \<open>0 < q2 \<le> (mLb - mL)\<^sup>2\<close>, but \<open>sp = - 1\<close> and \<open>math.sqrt(sp)\<close> raises.
\<close>

lemma helicity_amps_negative_mass:
  "helicity_amps 1 1 (- 1) example_ff = Inl ValueError"
  by (simp add: helicity_amps_def getitem_def example_ff_lookup py_sqrt_def py_div_def)

text \<open>
  C3. For masses \<open>0 \<le> mL \<le> mLb\<close>, a point \<open>0 < q2 \<le> (mLb - mL)\<^sup>2\<close> and a form-factor
  set with its eight entries, \<open>helicity_amps\<close> returns, and its eight "+helicity"
  entries are form factor times kinematic factor as in the table of the specification,
  with \<open>sp = (mLb + mL)\<^sup>2 - q2\<close> and \<open>sm = (mLb - mL)\<^sup>2 - q2\<close>.
\<close>

theorem helicity_amps_table:
  fixes q2 mLb mL :: real and ff :: "real dict"
  assumes ff: "ff (Str ''fV0'') = Some fV0" "ff (Str ''fVperp'') = Some fVperp"
      "ff (Str ''fA0'') = Some fA0" "ff (Str ''fAperp'') = Some fAperp"
      "ff (Str ''fT0'') = Some fT0" "ff (Str ''fTperp'') = Some fTperp"
      "ff (Str ''fT50'') = Some fT50" "ff (Str ''fT5perp'') = Some fT5perp"
    and q2: "0 < q2" "q2 \<le> (mLb - mL)\<^sup>2"
    and masses: "0 \<le> mL" "mL \<le> mLb"
  shows "\<exists>H. helicity_amps q2 mLb mL ff = Inr H \<and>
     (let sp = (mLb + mL)\<^sup>2 - q2; sm = (mLb - mL)\<^sup>2 - q2 in
      H (Str ''0V++'') = Some (fV0 * ((mLb + mL) / sqrt q2 * sqrt sm)) \<and>
      H (Str ''+V-+'') = Some (fVperp * (- sqrt (2 * sm))) \<and>
      H (Str ''0A++'') = Some (fA0 * ((mLb - mL) / sqrt q2 * sqrt sp)) \<and>
      H (Str ''+A-+'') = Some (fAperp * (- sqrt (2 * sp))) \<and>
      H (Str ''0T++'') = Some (fT0 * (- (sqrt q2 * sqrt sm))) \<and>
      H (Str ''+T-+'') = Some (fTperp * ((mLb + mL) * sqrt (2 * sm))) \<and>
      H (Str ''0T5++'') = Some (fT50 * (sqrt q2 * sqrt sp)) \<and>
      H (Str ''+T5-+'') = Some (fT5perp * (- ((mLb - mL) * sqrt (2 * sp)))))"
proof -
  have sm: "0 \<le> (mLb - mL)\<^sup>2 - q2" using q2 by simp
  have "0 \<le> mLb * mL" using masses by simp
  moreover have "(mLb + mL)\<^sup>2 = (mLb - mL)\<^sup>2 + 4 * (mLb * mL)"
    by (simp add: power2_eq_square algebra_simps)
  ultimately have sp: "0 \<le> (mLb + mL)\<^sup>2 - q2" using q2 by linarith
  show ?thesis
    unfolding helicity_amps_valid [OF ff q2(1) sm sp] Let_def
    by (simp add: helicity_dict_lookup)
qed

theorem helicity_amps_table_witness:
  "\<exists>H. helicity_amps 4 5 1 example_ff = Inr H \<and>
      H (Str ''0V++'') = Some (1 * ((5 + 1) / sqrt 4 * sqrt ((5 - 1)\<^sup>2 - 4))) \<and>
      H (Str ''+V-+'') = Some (2 * (- sqrt (2 * ((5 - 1)\<^sup>2 - 4)))) \<and>
      H (Str ''0A++'') = Some (3 * ((5 - 1) / sqrt 4 * sqrt ((5 + 1)\<^sup>2 - 4))) \<and>
      H (Str ''+A-+'') = Some (4 * (- sqrt (2 * ((5 + 1)\<^sup>2 - 4)))) \<and>
      H (Str ''0T++'') = Some (5 * (- (sqrt 4 * sqrt ((5 - 1)\<^sup>2 - 4)))) \<and>
      H (Str ''+T-+'') = Some (6 * ((5 + 1) * sqrt (2 * ((5 - 1)\<^sup>2 - 4)))) \<and>
      H (Str ''0T5++'') = Some (7 * (sqrt 4 * sqrt ((5 + 1)\<^sup>2 - 4))) \<and>
      H (Str ''+T5-+'') = Some (8 * (- ((5 - 1) * sqrt (2 * ((5 + 1)\<^sup>2 - 4)))))"
proof -
  have q2: "(0::real) < 4" "(4::real) \<le> (5 - 1)\<^sup>2" by simp_all
  have masses: "(0::real) \<le> 1" "(1::real) \<le> 5" by simp_all
  show ?thesis
    using helicity_amps_table [OF example_ff_lookup q2 masses]
    unfolding Let_def .
qed

text \<open>
  C5. Whenever \<open>helicity_amps\<close> returns, its output has 16 entries, the "-helicity"
  V and T entries equal their "+helicity" partners, and the A and T5 entries are the
  negated partners.
\<close>

theorem helicity_amps_sign_identities:
  assumes "helicity_amps q2 mLb mL ff = Inr H"
  shows "card (dom H) = 16 \<and>
    (\<exists>v a t t5 v' a' t' t5'.
      H (Str ''0V++'') = Some v \<and> H (Str ''0V--'') = Some v \<and>
      H (Str ''+V-+'') = Some v' \<and> H (Str ''+V+-'') = Some v' \<and>
      H (Str ''0T++'') = Some t \<and> H (Str ''0T--'') = Some t \<and>
      H (Str ''+T-+'') = Some t' \<and> H (Str ''+T+-'') = Some t' \<and>
      H (Str ''0A++'') = Some a \<and> H (Str ''0A--'') = Some (- a) \<and>
      H (Str ''+A-+'') = Some a' \<and> H (Str ''+A+-'') = Some (- a') \<and>
      H (Str ''0T5++'') = Some t5 \<and> H (Str ''0T5--'') = Some (- t5) \<and>
      H (Str ''+T5-+'') = Some t5' \<and> H (Str ''+T5+-'') = Some (- t5'))"
proof -
  from helicity_amps_InrD [OF assms]
  obtain x1 x2 x3 x4 x5 x6 x7 x8 where H: "H = helicity_dict x1 x2 x3 x4 x5 x6 x7 x8"
    by blast
  show ?thesis
    unfolding H by (simp add: helicity_dict_lookup card_dom_helicity_dict)
qed

theorem helicity_amps_sign_identities_witness:
  "\<exists>H. helicity_amps 4 5 1 example_ff = Inr H \<and> card (dom H) = 16 \<and>
    (\<exists>v a t t5 v' a' t' t5'.
      H (Str ''0V++'') = Some v \<and> H (Str ''0V--'') = Some v \<and>
      H (Str ''+V-+'') = Some v' \<and> H (Str ''+V+-'') = Some v' \<and>
      H (Str ''0T++'') = Some t \<and> H (Str ''0T--'') = Some t \<and>
      H (Str ''+T-+'') = Some t' \<and> H (Str ''+T+-'') = Some t' \<and>
      H (Str ''0A++'') = Some a \<and> H (Str ''0A--'') = Some (- a) \<and>
      H (Str ''+A-+'') = Some a' \<and> H (Str ''+A+-'') = Some (- a') \<and>
      H (Str ''0T5++'') = Some t5 \<and> H (Str ''0T5--'') = Some (- t5) \<and>
      H (Str ''+T5-+'') = Some t5' \<and> H (Str ''+T5+-'') = Some (- t5'))"
proof -
  have "\<exists>H. helicity_amps 4 5 1 example_ff = Inr H"
    by (subst helicity_amps_valid [OF example_ff_lookup]) simp_all
  then obtain H where H: "helicity_amps 4 5 1 example_ff = Inr H" ..
  from helicity_amps_sign_identities [OF H] H show ?thesis by blast
qed

subsection \<open>The dictionary of transversity amplitudes\<close>

lemma transversity_dict_lookup:
  "transversity_dict a b c d e f g h (Tup [''perp1'', ''L'']) = Some a"
  "transversity_dict a b c d e f g h (Tup [''perp1'', ''R'']) = Some b"
  "transversity_dict a b c d e f g h (Tup [''para1'', ''L'']) = Some c"
  "transversity_dict a b c d e f g h (Tup [''para1'', ''R'']) = Some d"
  "transversity_dict a b c d e f g h (Tup [''perp0'', ''L'']) = Some e"
  "transversity_dict a b c d e f g h (Tup [''perp0'', ''R'']) = Some f"
  "transversity_dict a b c d e f g h (Tup [''para0'', ''L'']) = Some g"
  "transversity_dict a b c d e f g h (Tup [''para0'', ''R'']) = Some h"
  by (simp_all add: transversity_dict_def)

lemma card_dom_transversity_dict: "card (dom (transversity_dict a b c d e f g h)) = 8"
  by (simp add: transversity_dict_def)

lemma scale_transversity_dict:
  "(\<lambda>k. map_option (\<lambda>v. N * v) (transversity_dict a b c d e f g h k)) =
     transversity_dict (N * a) (N * b) (N * c) (N * d) (N * e) (N * f) (N * g) (N * h)"
  by (rule ext) (simp add: transversity_dict_def)

lemmas rhs_transverity_defs =
  rhs_C910Lpl_def rhs_C910Rpl_def rhs_C910Lmi_def rhs_C910Rmi_def
  rhs_A_perp1_L_def rhs_A_perp1_R_def rhs_A_para1_L_def rhs_A_para1_R_def
  rhs_A_perp0_L_def rhs_A_perp0_R_def rhs_A_para0_L_def rhs_A_para0_R_def

lemma transverity_amps_valid:
  assumes wc: "wc (Str ''v'') = Some v" "wc (Str ''a'') = Some a"
      "wc (Str ''vp'') = Some vp" "wc (Str ''ap'') = Some ap"
      "wc (Str ''7'') = Some c7" "wc (Str ''7p'') = Some c7p"
    and ha: "ha (Str ''+V-+'') = Some hV1" "ha (Str ''+T-+'') = Some hT1"
      "ha (Str ''+A-+'') = Some hA1" "ha (Str ''+T5-+'') = Some hT51"
      "ha (Str ''0V++'') = Some hV0" "ha (Str ''0T++'') = Some hT0"
      "ha (Str ''0A++'') = Some hA0" "ha (Str ''0T5++'') = Some hT50"
    and q2: "q2 \<noteq> 0"
  shows "transverity_amps ha q2 mLb mL mqh mql wc N = Inr (transversity_dict
    (N * (complex_of_real (sqrt 2) * (((v - a) + (vp - ap)) * complex_of_real hV1
        - complex_of_real (2 * mqh) * (c7 + c7p) / complex_of_real q2 * complex_of_real hT1)))
    (N * (complex_of_real (sqrt 2) * (((v + a) + (vp + ap)) * complex_of_real hV1
        - complex_of_real (2 * mqh) * (c7 + c7p) / complex_of_real q2 * complex_of_real hT1)))
    (N * (- complex_of_real (sqrt 2) * (((v - a) - (vp - ap)) * complex_of_real hA1
        + complex_of_real (2 * mqh) * (c7 - c7p) / complex_of_real q2 * complex_of_real hT51)))
    (N * (- complex_of_real (sqrt 2) * (((v + a) - (vp + ap)) * complex_of_real hA1
        + complex_of_real (2 * mqh) * (c7 - c7p) / complex_of_real q2 * complex_of_real hT51)))
    (N * (complex_of_real (sqrt 2) * (((v - a) + (vp - ap)) * complex_of_real hV0
        - complex_of_real (2 * mqh) * (c7 + c7p) / complex_of_real q2 * complex_of_real hT0)))
    (N * (complex_of_real (sqrt 2) * (((v + a) + (vp + ap)) * complex_of_real hV0
        - complex_of_real (2 * mqh) * (c7 + c7p) / complex_of_real q2 * complex_of_real hT0)))
    (N * (- complex_of_real (sqrt 2) * (((v - a) - (vp - ap)) * complex_of_real hA0
        + complex_of_real (2 * mqh) * (c7 - c7p) / complex_of_real q2 * complex_of_real hT50)))
    (N * (- complex_of_real (sqrt 2) * (((v + a) - (vp + ap)) * complex_of_real hA0
        + complex_of_real (2 * mqh) * (c7 - c7p) / complex_of_real q2 * complex_of_real hT50))))"
proof -
  have g: "getitem wc (Str ''v'') = Inr v" "getitem wc (Str ''a'') = Inr a"
      "getitem wc (Str ''vp'') = Inr vp" "getitem wc (Str ''ap'') = Inr ap"
      "getitem wc (Str ''7'') = Inr c7" "getitem wc (Str ''7p'') = Inr c7p"
    using wc by (simp_all add: getitem_def)
  have h: "getitem ha (Str ''+V-+'') = Inr hV1" "getitem ha (Str ''+T-+'') = Inr hT1"
      "getitem ha (Str ''+A-+'') = Inr hA1" "getitem ha (Str ''+T5-+'') = Inr hT51"
      "getitem ha (Str ''0V++'') = Inr hV0" "getitem ha (Str ''0T++'') = Inr hT0"
      "getitem ha (Str ''0A++'') = Inr hA0" "getitem ha (Str ''0T5++'') = Inr hT50"
    using ha by (simp_all add: getitem_def)
  have d: "\<And>z. py_cdiv z q2 = Inr (z / complex_of_real q2)"
    using q2 by (simp add: py_cdiv_def)
  show ?thesis
    unfolding transverity_amps_def rhs_transverity_defs Let_def scale_transversity_dict [symmetric]
    by (simp only: g h d bind_res_Inr) (simp add: transversity_dict_def)
qed

lemma transverity_amps_InrD:
  assumes "transverity_amps ha q2 mLb mL mqh mql wc N = Inr A"
  shows "\<exists>a b c d e f g h. A = transversity_dict a b c d e f g h"
  using assms unfolding transverity_amps_def rhs_transverity_defs Let_def
  apply (elim bind_res_InrE)
  apply (simp only: sum.inject transversity_dict_def [symmetric] scale_transversity_dict)
  apply blast
  done


lemma example_wc_lookup:
  "example_wc (Str ''v'') = Some 4" "example_wc (Str ''a'') = Some (- 4)"
  "example_wc (Str ''vp'') = Some \<i>" "example_wc (Str ''ap'') = Some 1"
  "example_wc (Str ''7'') = Some (- 1)" "example_wc (Str ''7p'') = Some (2 * \<i>)"
  by (simp_all add: example_wc_def)

lemma example_ha_lookup:
  "example_ha (Str ''+V-+'') = Some 2" "example_ha (Str ''+T-+'') = Some 6"
  "example_ha (Str ''+A-+'') = Some 4" "example_ha (Str ''+T5-+'') = Some 8"
  "example_ha (Str ''0V++'') = Some 1" "example_ha (Str ''0T++'') = Some 5"
  "example_ha (Str ''0A++'') = Some 3" "example_ha (Str ''0T5++'') = Some 7"
  by (simp_all add: example_ha_def helicity_dict_lookup)

text \<open>
  C4. For a helicity amplitude set, \<open>q2 > 0\<close>, a heavy-quark mass \<open>mqh\<close>, a Wilson bundle
  with the keys \<open>v, a, vp, ap, 7, 7p\<close> and a prefactor \<open>N\<close>, \<open>transverity_amps\<close> returns
  eight entries: the perp entries are
  \<open>N * (sqrt 2 * (C_pl * ha[V] - 2 * mqh * (c7 + c7p) / q2 * ha[T]))\<close> and the para
  entries are \<open>N * (- sqrt 2 * (C_mi * ha[A] + 2 * mqh * (c7 - c7p) / q2 * ha[T5]))\<close>, with
  \<open>C_L = (v - a) +/- (vp - ap)\<close> and \<open>C_R = (v + a) +/- (vp + ap)\<close> (plus for perp, minus for para).
\<close>

theorem transverity_amps_formulas:
  assumes wc: "wc (Str ''v'') = Some v" "wc (Str ''a'') = Some a"
      "wc (Str ''vp'') = Some vp" "wc (Str ''ap'') = Some ap"
      "wc (Str ''7'') = Some c7" "wc (Str ''7p'') = Some c7p"
    and ha: "ha (Str ''+V-+'') = Some hV1" "ha (Str ''+T-+'') = Some hT1"
      "ha (Str ''+A-+'') = Some hA1" "ha (Str ''+T5-+'') = Some hT51"
      "ha (Str ''0V++'') = Some hV0" "ha (Str ''0T++'') = Some hT0"
      "ha (Str ''0A++'') = Some hA0" "ha (Str ''0T5++'') = Some hT50"
    and q2: "0 < q2"
  shows "\<exists>A. transverity_amps ha q2 mLb mL mqh mql wc N = Inr A \<and> card (dom A) = 8 \<and>
    (let C_L_pl = (v - a) + (vp - ap); C_L_mi = (v - a) - (vp - ap);
         C_R_pl = (v + a) + (vp + ap); C_R_mi = (v + a) - (vp + ap);
         dipole_pl = complex_of_real (2 * mqh) * (c7 + c7p) / complex_of_real q2;
         dipole_mi = complex_of_real (2 * mqh) * (c7 - c7p) / complex_of_real q2;
         r2 = complex_of_real (sqrt 2)
     in
      A (Tup [''perp1'', ''L'']) =
        Some (N * (r2 * (C_L_pl * complex_of_real hV1 - dipole_pl * complex_of_real hT1))) \<and>
      A (Tup [''perp1'', ''R'']) =
        Some (N * (r2 * (C_R_pl * complex_of_real hV1 - dipole_pl * complex_of_real hT1))) \<and>
      A (Tup [''para1'', ''L'']) =
        Some (N * (- r2 * (C_L_mi * complex_of_real hA1 + dipole_mi * complex_of_real hT51))) \<and>
      A (Tup [''para1'', ''R'']) =
        Some (N * (- r2 * (C_R_mi * complex_of_real hA1 + dipole_mi * complex_of_real hT51))) \<and>
      A (Tup [''perp0'', ''L'']) =
        Some (N * (r2 * (C_L_pl * complex_of_real hV0 - dipole_pl * complex_of_real hT0))) \<and>
      A (Tup [''perp0'', ''R'']) =
        Some (N * (r2 * (C_R_pl * complex_of_real hV0 - dipole_pl * complex_of_real hT0))) \<and>
      A (Tup [''para0'', ''L'']) =
        Some (N * (- r2 * (C_L_mi * complex_of_real hA0 + dipole_mi * complex_of_real hT50))) \<and>
      A (Tup [''para0'', ''R'']) =
        Some (N * (- r2 * (C_R_mi * complex_of_real hA0 + dipole_mi * complex_of_real hT50))))"
proof -
  from q2 have "q2 \<noteq> 0" by simp
  from transverity_amps_valid [OF wc ha this] show ?thesis
    unfolding Let_def
    by (simp only: transversity_dict_lookup card_dom_transversity_dict sum.inject simp_thms ex_simps)
qed

theorem transverity_amps_formulas_witness:
  "\<exists>A. transverity_amps example_ha 4 5 1 3 0 example_wc (2 * \<i>) = Inr A \<and> card (dom A) = 8 \<and>
    (let C_L_pl = (4 - (- 4)) + (\<i> - 1); C_L_mi = (4 - (- 4)) - (\<i> - 1);
         C_R_pl = (4 + (- 4)) + (\<i> + 1); C_R_mi = (4 + (- 4)) - (\<i> + 1);
         dipole_pl = complex_of_real (2 * 3) * (- 1 + 2 * \<i>) / complex_of_real 4;
         dipole_mi = complex_of_real (2 * 3) * (- 1 - 2 * \<i>) / complex_of_real 4;
         r2 = complex_of_real (sqrt 2)
     in
      A (Tup [''perp1'', ''L'']) =
        Some (2 * \<i> * (r2 * (C_L_pl * complex_of_real 2 - dipole_pl * complex_of_real 6))) \<and>
      A (Tup [''perp1'', ''R'']) =
        Some (2 * \<i> * (r2 * (C_R_pl * complex_of_real 2 - dipole_pl * complex_of_real 6))) \<and>
      A (Tup [''para1'', ''L'']) =
        Some (2 * \<i> * (- r2 * (C_L_mi * complex_of_real 4 + dipole_mi * complex_of_real 8))) \<and>
      A (Tup [''para1'', ''R'']) =
        Some (2 * \<i> * (- r2 * (C_R_mi * complex_of_real 4 + dipole_mi * complex_of_real 8))) \<and>
      A (Tup [''perp0'', ''L'']) =
        Some (2 * \<i> * (r2 * (C_L_pl * complex_of_real 1 - dipole_pl * complex_of_real 5))) \<and>
      A (Tup [''perp0'', ''R'']) =
        Some (2 * \<i> * (r2 * (C_R_pl * complex_of_real 1 - dipole_pl * complex_of_real 5))) \<and>
      A (Tup [''para0'', ''L'']) =
        Some (2 * \<i> * (- r2 * (C_L_mi * complex_of_real 3 + dipole_mi * complex_of_real 7))) \<and>
      A (Tup [''para0'', ''R'']) =
        Some (2 * \<i> * (- r2 * (C_R_mi * complex_of_real 3 + dipole_mi * complex_of_real 7))))"
proof -
  have q2: "(0::real) < 4" by simp
  show ?thesis
    by (rule transverity_amps_formulas [OF example_wc_lookup example_ha_lookup q2])
qed

text \<open>
  C10. The result of \<open>transverity_amps\<close> does not depend on its arguments \<open>mLb\<close>, \<open>mL\<close>
  and \<open>mql\<close>: two calls that agree on the other arguments return the same result.
\<close>

theorem transverity_amps_ignores_masses:
  "transverity_amps ha q2 mLb mL mqh mql wc N = transverity_amps ha q2 mLb' mL' mqh mql' wc N"
  by (simp only: transverity_amps_def)

subsection \<open>The dictionary of angular coefficients\<close>

lemma angular_dict_lookup:
  "angular_dict a b c d e f g h i j (Str ''1ss'') = Some a"
  "angular_dict a b c d e f g h i j (Str ''1cc'') = Some b"
  "angular_dict a b c d e f g h i j (Str ''1c'') = Some c"
  "angular_dict a b c d e f g h i j (Str ''2ss'') = Some d"
  "angular_dict a b c d e f g h i j (Str ''2cc'') = Some e"
  "angular_dict a b c d e f g h i j (Str ''2c'') = Some f"
  "angular_dict a b c d e f g h i j (Str ''3sc'') = Some g"
  "angular_dict a b c d e f g h i j (Str ''3s'') = Some h"
  "angular_dict a b c d e f g h i j (Str ''4sc'') = Some i"
  "angular_dict a b c d e f g h i j (Str ''4s'') = Some j"
  by (simp_all add: angular_dict_def)

lemma card_dom_angular_dict: "card (dom (angular_dict a b c d e f g h i j)) = 10"
  by (simp add: angular_dict_def)

lemmas rhs_angular_defs =
  rhs_K_1ss_def rhs_K_1cc_def rhs_K_1c_def rhs_K_2ss_def rhs_K_2cc_def rhs_K_2c_def
  rhs_K_3sc_def rhs_K_3s_def rhs_K_4sc_def rhs_K_4s_def

lemma angular_coefficients_valid:
  assumes ta: "ta (Tup [''perp1'', ''L'']) = Some perp1L" "ta (Tup [''perp1'', ''R'']) = Some perp1R"
      "ta (Tup [''para1'', ''L'']) = Some para1L" "ta (Tup [''para1'', ''R'']) = Some para1R"
      "ta (Tup [''perp0'', ''L'']) = Some perp0L" "ta (Tup [''perp0'', ''R'']) = Some perp0R"
      "ta (Tup [''para0'', ''L'']) = Some para0L" "ta (Tup [''para0'', ''R'']) = Some para0R"
  shows "angular_coefficients ta alpha = Inr (angular_dict
    (1 / 4 * ((cmod perp1R)\<^sup>2 + (cmod perp1L)\<^sup>2 + (cmod para1R)\<^sup>2 + (cmod para1L)\<^sup>2
            + 2 * (cmod perp0R)\<^sup>2 + 2 * (cmod perp0L)\<^sup>2 + 2 * (cmod para0R)\<^sup>2 + 2 * (cmod para0L)\<^sup>2))
    (1 / 2 * ((cmod perp1R)\<^sup>2 + (cmod perp1L)\<^sup>2 + (cmod para1R)\<^sup>2 + (cmod para1L)\<^sup>2))
    (- Re (perp1R * cnj para1R - perp1L * cnj para1L))
    (alpha / 2 * Re (perp1R * cnj para1R + 2 * perp0R * cnj para0R
            + perp1L * cnj para1L + 2 * perp0L * cnj para0L))
    (alpha * Re (perp1R * cnj para1R + perp1L * cnj para1L))
    (- alpha / 2 * ((cmod perp1R)\<^sup>2 - (cmod perp1L)\<^sup>2 + (cmod para1R)\<^sup>2 - (cmod para1L)\<^sup>2))
    (alpha / sqrt 2 * Im (perp1R * cnj perp0R - para1R * cnj para0R
            + perp1L * cnj perp0L - para1L * cnj para0L))
    (alpha / sqrt 2 * Im (perp1R * cnj para0R - para1R * cnj perp0R
            - perp1L * cnj para0L + para1L * cnj perp0L))
    (alpha / sqrt 2 * Im (perp1R * cnj para0R - para1R * cnj perp0R
            + perp1L * cnj para0L - para1L * cnj perp0L))
    (alpha / sqrt 2 * Im (perp1R * cnj perp0R - para1R * cnj para0R
            - perp1L * cnj perp0L + para1L * cnj para0L)))"
proof -
  have g: "getitem ta (Tup [''perp1'', ''L'']) = Inr perp1L" "getitem ta (Tup [''perp1'', ''R'']) = Inr perp1R"
      "getitem ta (Tup [''para1'', ''L'']) = Inr para1L" "getitem ta (Tup [''para1'', ''R'']) = Inr para1R"
      "getitem ta (Tup [''perp0'', ''L'']) = Inr perp0L" "getitem ta (Tup [''perp0'', ''R'']) = Inr perp0R"
      "getitem ta (Tup [''para0'', ''L'']) = Inr para0L" "getitem ta (Tup [''para0'', ''R'']) = Inr para0R"
    using ta by (simp_all add: getitem_def)
  show ?thesis
    unfolding angular_coefficients_def rhs_angular_defs Let_def angular_dict_def
    by (simp only: g bind_res_Inr)
qed


lemma example_ta_lookup:
  "example_ta (Tup [''perp1'', ''L'']) = Some 1" "example_ta (Tup [''perp1'', ''R'']) = Some \<i>"
  "example_ta (Tup [''para1'', ''L'']) = Some 2" "example_ta (Tup [''para1'', ''R'']) = Some 1"
  "example_ta (Tup [''perp0'', ''L'']) = Some 1" "example_ta (Tup [''perp0'', ''R'']) = Some 1"
  "example_ta (Tup [''para0'', ''L'']) = Some \<i>" "example_ta (Tup [''para0'', ''R'']) = Some 1"
  by (simp_all add: example_ta_def transversity_dict_lookup)

lemma dGdq2_angular_dict:
  "dGdq2 (angular_dict a b c d e f g h i j) = Inr (2 * a + b)"
  by (simp add: dGdq2_def getitem_def angular_dict_lookup)

text \<open>
  C2, as amended. For a transversity amplitude set with its eight entries and a real
  \<open>alpha\<close>, \<open>angular_coefficients\<close> returns a dictionary of ten (not nine) real
  coefficients, \<open>1ss, 1cc, 1c, 2ss, 2cc, 2c, 3sc, 3s, 4sc, 4s\<close>, each given by the bilinear
  formula of the specification, with its signs, chirality pairings and \<open>Re\<close>/\<open>Im\<close>.
\<close>

theorem angular_coefficients_formulas:
  assumes ta: "ta (Tup [''perp1'', ''L'']) = Some perp1L" "ta (Tup [''perp1'', ''R'']) = Some perp1R"
      "ta (Tup [''para1'', ''L'']) = Some para1L" "ta (Tup [''para1'', ''R'']) = Some para1R"
      "ta (Tup [''perp0'', ''L'']) = Some perp0L" "ta (Tup [''perp0'', ''R'']) = Some perp0R"
      "ta (Tup [''para0'', ''L'']) = Some para0L" "ta (Tup [''para0'', ''R'']) = Some para0R"
  shows "\<exists>K. angular_coefficients ta alpha = Inr K \<and> card (dom K) = 10 \<and>
      K (Str ''1ss'') = Some (1 / 4 * ((cmod perp1R)\<^sup>2 + (cmod perp1L)\<^sup>2 + (cmod para1R)\<^sup>2 + (cmod para1L)\<^sup>2
          + 2 * (cmod perp0R)\<^sup>2 + 2 * (cmod perp0L)\<^sup>2 + 2 * (cmod para0R)\<^sup>2 + 2 * (cmod para0L)\<^sup>2)) \<and>
      K (Str ''1cc'') = Some (1 / 2 * ((cmod perp1R)\<^sup>2 + (cmod perp1L)\<^sup>2 + (cmod para1R)\<^sup>2 + (cmod para1L)\<^sup>2)) \<and>
      K (Str ''1c'') = Some (- Re (perp1R * cnj para1R - perp1L * cnj para1L)) \<and>
      K (Str ''2ss'') = Some (alpha / 2 * Re (perp1R * cnj para1R + 2 * perp0R * cnj para0R
          + perp1L * cnj para1L + 2 * perp0L * cnj para0L)) \<and>
      K (Str ''2cc'') = Some (alpha * Re (perp1R * cnj para1R + perp1L * cnj para1L)) \<and>
      K (Str ''2c'') = Some (- alpha / 2 * ((cmod perp1R)\<^sup>2 - (cmod perp1L)\<^sup>2 + (cmod para1R)\<^sup>2 - (cmod para1L)\<^sup>2)) \<and>
      K (Str ''3sc'') = Some (alpha / sqrt 2 * Im (perp1R * cnj perp0R - para1R * cnj para0R
          + perp1L * cnj perp0L - para1L * cnj para0L)) \<and>
      K (Str ''3s'') = Some (alpha / sqrt 2 * Im (perp1R * cnj para0R - para1R * cnj perp0R
          - perp1L * cnj para0L + para1L * cnj perp0L)) \<and>
      K (Str ''4sc'') = Some (alpha / sqrt 2 * Im (perp1R * cnj para0R - para1R * cnj perp0R
          + perp1L * cnj para0L - para1L * cnj perp0L)) \<and>
      K (Str ''4s'') = Some (alpha / sqrt 2 * Im (perp1R * cnj perp0R - para1R * cnj para0R
          - perp1L * cnj perp0L + para1L * cnj para0L))"
  unfolding angular_coefficients_valid [OF ta]
  by (simp only: angular_dict_lookup card_dom_angular_dict sum.inject simp_thms ex_simps)

theorem angular_coefficients_formulas_witness:
  "\<exists>K. angular_coefficients example_ta 3 = Inr K \<and> card (dom K) = 10 \<and>
      K (Str ''1ss'') = Some (1 / 4 * ((cmod \<i>)\<^sup>2 + (cmod 1)\<^sup>2 + (cmod 1)\<^sup>2 + (cmod 2)\<^sup>2
          + 2 * (cmod 1)\<^sup>2 + 2 * (cmod 1)\<^sup>2 + 2 * (cmod 1)\<^sup>2 + 2 * (cmod \<i>)\<^sup>2)) \<and>
      K (Str ''1cc'') = Some (1 / 2 * ((cmod \<i>)\<^sup>2 + (cmod 1)\<^sup>2 + (cmod 1)\<^sup>2 + (cmod 2)\<^sup>2)) \<and>
      K (Str ''1c'') = Some (- Re (\<i> * cnj 1 - 1 * cnj 2)) \<and>
      K (Str ''2ss'') = Some (3 / 2 * Re (\<i> * cnj 1 + 2 * 1 * cnj 1
          + 1 * cnj 2 + 2 * 1 * cnj \<i>)) \<and>
      K (Str ''2cc'') = Some (3 * Re (\<i> * cnj 1 + 1 * cnj 2)) \<and>
      K (Str ''2c'') = Some (- 3 / 2 * ((cmod \<i>)\<^sup>2 - (cmod 1)\<^sup>2 + (cmod 1)\<^sup>2 - (cmod 2)\<^sup>2)) \<and>
      K (Str ''3sc'') = Some (3 / sqrt 2 * Im (\<i> * cnj 1 - 1 * cnj 1
          + 1 * cnj 1 - 2 * cnj \<i>)) \<and>
      K (Str ''3s'') = Some (3 / sqrt 2 * Im (\<i> * cnj 1 - 1 * cnj 1
          - 1 * cnj \<i> + 2 * cnj 1)) \<and>
      K (Str ''4sc'') = Some (3 / sqrt 2 * Im (\<i> * cnj 1 - 1 * cnj 1
          + 1 * cnj \<i> - 2 * cnj 1)) \<and>
      K (Str ''4s'') = Some (3 / sqrt 2 * Im (\<i> * cnj 1 - 1 * cnj 1
          - 1 * cnj 1 + 2 * cnj \<i>))"
  by (rule angular_coefficients_formulas [OF example_ta_lookup])

text \<open>
  The claim as stated speaks of nine coefficients and nine keys. At \<open>alpha = 0\<close> and the
  example amplitudes the returned dictionary has ten keys.
\<close>

theorem angular_coefficients_nine_keys_counterexample:
  "angular_coefficients example_ta 0 = Inr (angular_dict (15 / 4) (7 / 2) 2 0 0 0 0 0 0 0) \<and>
   card (dom (angular_dict (15 / 4) (7 / 2) 2 0 0 0 0 0 0 0)) = 10 \<and>
   card (dom (angular_dict (15 / 4) (7 / 2) 2 0 0 0 0 0 0 0)) \<noteq> 9"
  unfolding angular_coefficients_valid [OF example_ta_lookup]
  by (simp add: card_dom_angular_dict)

text \<open>
  C8. With \<open>alpha = 0\<close> the seven coefficients \<open>2ss, 2cc, 2c, 3sc, 3s, 4sc, 4s\<close> are 0,
  and \<open>1ss, 1cc, 1c\<close> have the same values as for any other \<open>alpha\<close>.
\<close>

theorem angular_coefficients_alpha_zero:
  assumes ta: "ta (Tup [''perp1'', ''L'']) = Some perp1L" "ta (Tup [''perp1'', ''R'']) = Some perp1R"
      "ta (Tup [''para1'', ''L'']) = Some para1L" "ta (Tup [''para1'', ''R'']) = Some para1R"
      "ta (Tup [''perp0'', ''L'']) = Some perp0L" "ta (Tup [''perp0'', ''R'']) = Some perp0R"
      "ta (Tup [''para0'', ''L'']) = Some para0L" "ta (Tup [''para0'', ''R'']) = Some para0R"
  shows "\<exists>K0 k1ss k1cc k1c. angular_coefficients ta 0 = Inr K0 \<and>
      K0 (Str ''2ss'') = Some 0 \<and> K0 (Str ''2cc'') = Some 0 \<and> K0 (Str ''2c'') = Some 0 \<and>
      K0 (Str ''3sc'') = Some 0 \<and> K0 (Str ''3s'') = Some 0 \<and>
      K0 (Str ''4sc'') = Some 0 \<and> K0 (Str ''4s'') = Some 0 \<and>
      K0 (Str ''1ss'') = Some k1ss \<and> K0 (Str ''1cc'') = Some k1cc \<and> K0 (Str ''1c'') = Some k1c \<and>
      (\<forall>alpha. \<exists>K. angular_coefficients ta alpha = Inr K \<and>
         K (Str ''1ss'') = Some k1ss \<and> K (Str ''1cc'') = Some k1cc \<and> K (Str ''1c'') = Some k1c)"
  unfolding angular_coefficients_valid [OF ta]
  apply (simp only: angular_dict_lookup sum.inject option.inject simp_thms ex_simps)
  apply simp
  done

theorem angular_coefficients_alpha_zero_witness:
  "\<exists>K0 k1ss k1cc k1c. angular_coefficients example_ta 0 = Inr K0 \<and>
      K0 (Str ''2ss'') = Some 0 \<and> K0 (Str ''2cc'') = Some 0 \<and> K0 (Str ''2c'') = Some 0 \<and>
      K0 (Str ''3sc'') = Some 0 \<and> K0 (Str ''3s'') = Some 0 \<and>
      K0 (Str ''4sc'') = Some 0 \<and> K0 (Str ''4s'') = Some 0 \<and>
      K0 (Str ''1ss'') = Some k1ss \<and> K0 (Str ''1cc'') = Some k1cc \<and> K0 (Str ''1c'') = Some k1c \<and>
      (\<forall>alpha. \<exists>K. angular_coefficients example_ta alpha = Inr K \<and>
         K (Str ''1ss'') = Some k1ss \<and> K (Str ''1cc'') = Some k1cc \<and> K (Str ''1c'') = Some k1c)"
  by (rule angular_coefficients_alpha_zero [OF example_ta_lookup])

text \<open>
  C9. For any eight complex transversity amplitudes and any \<open>alpha\<close>, \<open>K['1ss']\<close> and
  \<open>K['1cc']\<close> are non-negative, and so is \<open>dGdq2(K) = 2 * K['1ss'] + K['1cc']\<close>.
\<close>

theorem total_rate_nonnegative:
  assumes ta: "ta (Tup [''perp1'', ''L'']) = Some perp1L" "ta (Tup [''perp1'', ''R'']) = Some perp1R"
      "ta (Tup [''para1'', ''L'']) = Some para1L" "ta (Tup [''para1'', ''R'']) = Some para1R"
      "ta (Tup [''perp0'', ''L'']) = Some perp0L" "ta (Tup [''perp0'', ''R'']) = Some perp0R"
      "ta (Tup [''para0'', ''L'']) = Some para0L" "ta (Tup [''para0'', ''R'']) = Some para0R"
  shows "\<exists>K k1ss k1cc. angular_coefficients ta alpha = Inr K \<and>
      K (Str ''1ss'') = Some k1ss \<and> 0 \<le> k1ss \<and>
      K (Str ''1cc'') = Some k1cc \<and> 0 \<le> k1cc \<and>
      dGdq2 K = Inr (2 * k1ss + k1cc) \<and> 0 \<le> 2 * k1ss + k1cc"
  unfolding angular_coefficients_valid [OF ta]
  apply (simp only: angular_dict_lookup dGdq2_angular_dict sum.inject option.inject simp_thms ex_simps)
  apply (simp add: add_nonneg_nonneg)
  done

theorem total_rate_nonnegative_witness:
  "\<exists>K k1ss k1cc. angular_coefficients example_ta 3 = Inr K \<and>
      K (Str ''1ss'') = Some k1ss \<and> 0 \<le> k1ss \<and>
      K (Str ''1cc'') = Some k1cc \<and> 0 \<le> k1cc \<and>
      dGdq2 K = Inr (2 * k1ss + k1cc) \<and> 0 \<le> 2 * k1ss + k1cc"
  by (rule total_rate_nonnegative [OF example_ta_lookup])

subsection \<open>The orchestration\<close>

lemma example_par_lookup:
  "example_par (Str ''m_mu'') = Some 1" "example_par (Str ''m_Lambdab'') = Some 5"
  "example_par (Str ''m_Lambda'') = Some 1" "example_par (Str ''tau_Lambdab'') = Some 2"
  "example_par (Str ''Lambda->ppi alpha_-'') = Some (1 / 2)" "example_par (Str ''GF'') = Some 1"
  by (simp_all add: example_par_def)

lemma get_transverity_amps_returns:
  assumes ext: "config_scale ext = Inr scale" "get_mb ext par scale = Inr mb"
      "ff_prediction ext par q2 = Inr ff"
      "wctot_dict ext wc_obj (''bs'' @ lep @ lep) scale par = Inr wc"
      "get_wceff ext q2 wc par ''Lambdab'' ''Lambda'' lep scale = Inr wc_eff"
      "xi_t_bs ext par = Inr xi_t" "get_alpha_e ext par scale = Inr alphaem"
      "lambda_K ext (mLb\<^sup>2) (mL\<^sup>2) q2 = Inr la_K"
    and par: "par (Str ''m_Lambdab'') = Some mLb" "par (Str ''m_Lambda'') = Some mL"
      "par (Str ''GF'') = Some GF"
    and ff: "ff (Str ''fV0'') = Some fV0" "ff (Str ''fVperp'') = Some fVperp"
      "ff (Str ''fA0'') = Some fA0" "ff (Str ''fAperp'') = Some fAperp"
      "ff (Str ''fT0'') = Some fT0" "ff (Str ''fTperp'') = Some fTperp"
      "ff (Str ''fT50'') = Some fT50" "ff (Str ''fT5perp'') = Some fT5perp"
    and wc: "wc_eff (Str ''v'') = Some v" "wc_eff (Str ''a'') = Some a"
      "wc_eff (Str ''vp'') = Some vp" "wc_eff (Str ''ap'') = Some ap"
      "wc_eff (Str ''7'') = Some c7" "wc_eff (Str ''7p'') = Some c7p"
    and q2: "0 < q2" "q2 \<le> (mLb - mL)\<^sup>2"
    and masses: "0 \<le> mL" "mL \<le> mLb" "0 < mLb"
  shows "\<exists>ta. get_transverity_amps ext q2 wc_obj par lep False = Inr ta"
proof -
  have sm: "0 \<le> (mLb - mL)\<^sup>2 - q2" using q2 by simp
  have "0 \<le> mLb * mL" using masses by simp
  moreover have "(mLb + mL)\<^sup>2 = (mLb - mL)\<^sup>2 + 4 * (mLb * mL)"
    by (simp add: power2_eq_square algebra_simps)
  ultimately have sp: "0 \<le> (mLb + mL)\<^sup>2 - q2" using q2 by linarith
  note ha = helicity_amps_valid [OF ff q2(1) sm sp]
  have g: "getitem par (Str ''m_Lambdab'') = Inr mLb" "getitem par (Str ''m_Lambda'') = Inr mL"
      "getitem par (Str ''GF'') = Inr GF"
    using par by (simp_all add: getitem_def)
  have r: "py_sqrt q2 = Inr (sqrt q2)" using q2 by (simp add: py_sqrt_def)
  have pos: "0 < 3 * 2 * mLb ^ 3 * pi ^ 5" using masses by simp
  have s: "py_sqrt (3 * 2 * mLb ^ 3 * pi ^ 5) = Inr (sqrt (3 * 2 * mLb ^ 3 * pi ^ 5))"
    using pos by (simp add: py_sqrt_def)
  have "sqrt (3 * 2 * mLb ^ 3 * pi ^ 5) \<noteq> 0"
    using masses(3) by simp
  then have d: "\<And>z. py_cdiv z (sqrt (3 * 2 * mLb ^ 3 * pi ^ 5)) =
      Inr (z / complex_of_real (sqrt (3 * 2 * mLb ^ 3 * pi ^ 5)))"
    by (simp add: py_cdiv_def)
  from q2 have nz: "q2 \<noteq> 0" by simp
  note ta = transverity_amps_valid [OF wc helicity_dict_lookup(2,6,4,8,1,5,3,7) nz]
  show ?thesis
    unfolding get_transverity_amps_def Let_def
    by (simp only: if_False bind_res_Inr ext g ha r s d ta) blast
qed


lemma get_transverity_amps_InrD:
  assumes "get_transverity_amps ext q2 wc_obj par lep cp = Inr ta"
  shows "\<exists>a b c d e f g h. ta = transversity_dict a b c d e f g h"
  using assms unfolding get_transverity_amps_def Let_def
  by (elim bind_res_InrE) (rule transverity_amps_InrD)

lemma example_ext_calls:
  "config_scale example_ext = Inr 4" "get_mb example_ext par scale = Inr 3"
  "ff_prediction example_ext par q2 = Inr example_ff"
  "wctot_dict example_ext wc_obj sector scale par = Inr ()"
  "get_wceff example_ext q2 wc par B V lep scale = Inr example_wc"
  "xi_t_bs example_ext par = Inr \<i>" "get_alpha_e example_ext par scale = Inr 1"
  "lambda_K example_ext a b c = Inr (a\<^sup>2 + b\<^sup>2 + c\<^sup>2 - 2 * (a * b + b * c + a * c))"
  by (simp_all add: example_ext_def)

lemma example_nintegrate:
  "nintegrate example_ext f a b = bind_res (f ((a + b) / 2)) (\<lambda>y. Inr (y * (b - a)))"
  by (simp add: example_ext_def)

lemma example_pipeline_returns:
  assumes "0 < q2" "q2 \<le> 16"
  shows "\<exists>ta. get_transverity_amps example_ext q2 () example_par ''mu'' False = Inr ta"
  by (rule get_transverity_amps_returns [OF example_ext_calls example_par_lookup(2,3,6)
        example_ff_lookup example_wc_lookup]) (use assms in simp_all)

lemma get_obs_outside:
  assumes "par (Str (''m_'' @ lep)) = Some ml" "par (Str ''m_Lambdab'') = Some mLb"
      "par (Str ''m_Lambda'') = Some mL"
    and "q2 < 4 * ml\<^sup>2 \<or> (mLb - mL)\<^sup>2 < q2"
  shows "get_obs ext function q2 wc_obj par lep = Inr 0"
  using assms by (simp add: get_obs_def getitem_def)

lemma get_obs_inside:
  assumes "par (Str (''m_'' @ lep)) = Some ml" "par (Str ''m_Lambdab'') = Some mLb"
      "par (Str ''m_Lambda'') = Some mL"
    and "4 * ml\<^sup>2 \<le> q2" "q2 \<le> (mLb - mL)\<^sup>2"
    and ta: "get_transverity_amps ext q2 wc_obj par lep False = Inr ta"
    and alpha: "par (Str ''Lambda->ppi alpha_-'') = Some alpha"
  shows "\<exists>K. angular_coefficients ta alpha = Inr K \<and> card (dom K) = 10 \<and>
     get_obs ext function q2 wc_obj par lep = function K"
proof -
  from get_transverity_amps_InrD [OF ta]
  obtain a b c d e f g h where shape: "ta = transversity_dict a b c d e f g h" by blast
  have K: "\<exists>x1 x2 x3 x4 x5 x6 x7 x8 x9 x10.
      angular_coefficients ta alpha = Inr (angular_dict x1 x2 x3 x4 x5 x6 x7 x8 x9 x10)"
    unfolding shape angular_coefficients_valid [OF transversity_dict_lookup] by blast
  then obtain K where K: "angular_coefficients ta alpha = Inr K" "card (dom K) = 10"
    using card_dom_angular_dict by blast
  have "get_obs ext function q2 wc_obj par lep = function K"
    using assms(1-5) by (simp add: get_obs_def getitem_def ta alpha K not_less)
  with K show ?thesis by blast
qed

lemma dbrdq2_inside:
  assumes par: "par (Str (''m_'' @ lep)) = Some ml" "par (Str ''m_Lambdab'') = Some mLb"
      "par (Str ''m_Lambda'') = Some mL"
    and tau: "par (Str ''tau_Lambdab'') = Some tauLb"
    and q2: "4 * ml\<^sup>2 \<le> q2" "q2 \<le> (mLb - mL)\<^sup>2"
    and ta: "get_transverity_amps ext q2 wc_obj par lep False = Inr ta"
    and alpha: "par (Str ''Lambda->ppi alpha_-'') = Some alpha"
  shows "\<exists>K k1ss k1cc. angular_coefficients ta alpha = Inr K \<and>
     K (Str ''1ss'') = Some k1ss \<and> K (Str ''1cc'') = Some k1cc \<and>
     dbrdq2 ext q2 wc_obj par lep = Inr (tauLb * (2 * k1ss + k1cc))"
proof -
  from get_transverity_amps_InrD [OF ta]
  obtain a b c d e f g h where shape: "ta = transversity_dict a b c d e f g h" by blast
  have "\<exists>x1 x2 x3 x4 x5 x6 x7 x8 x9 x10.
      angular_coefficients ta alpha = Inr (angular_dict x1 x2 x3 x4 x5 x6 x7 x8 x9 x10)"
    unfolding shape angular_coefficients_valid [OF transversity_dict_lookup] by blast
  then obtain x1 x2 x3 x4 x5 x6 x7 x8 x9 x10
    where K: "angular_coefficients ta alpha = Inr (angular_dict x1 x2 x3 x4 x5 x6 x7 x8 x9 x10)"
    by blast
  have "get_obs ext dGdq2 q2 wc_obj par lep = Inr (2 * x1 + x2)"
    using par q2 by (simp add: get_obs_def getitem_def ta alpha K not_less dGdq2_angular_dict)
  then have D: "dbrdq2 ext q2 wc_obj par lep = Inr (tauLb * (2 * x1 + x2))"
    using tau by (simp add: dbrdq2_def getitem_def)
  show ?thesis
    by (rule exI [of _ "angular_dict x1 x2 x3 x4 x5 x6 x7 x8 x9 x10"], rule exI [of _ x1],
        rule exI [of _ x2]) (simp add: K D angular_dict_lookup)
qed

lemma dbrdq2_int_average:
  assumes "q2min < q2max"
    and "nintegrate ext (\<lambda>q2. dbrdq2 ext q2 wc_obj par lep) q2min q2max = Inr I"
  shows "dbrdq2_int ext q2min q2max wc_obj par lep = Inr (I / (q2max - q2min))"
  using assms by (simp add: dbrdq2_int_def py_div_def)

lemma get_transverity_amps_cp_flag:
  "get_transverity_amps ext q2 wc_obj par_dict lep True = Inl (NameError ''conjugate_par'')"
  by (simp add: get_transverity_amps_def)

text \<open>
  C1. With the three masses in the parameter table, \<open>get_obs\<close> returns 0 whenever
  \<open>q2 < 4 * ml\<^sup>2\<close> or \<open>q2 > (mLb - mL)\<^sup>2\<close>, for every lepton flavor, Wilson-coefficient
  object and collaborators; inside the window, when the transversity amplitudes are
  computed and the decay parameter is in the table, it returns the requested function
  of the (ten) angular coefficients.
\<close>

theorem get_obs_window:
  assumes par: "par (Str (''m_'' @ lep)) = Some ml" "par (Str ''m_Lambdab'') = Some mLb"
      "par (Str ''m_Lambda'') = Some mL"
  shows "(q2 < 4 * ml\<^sup>2 \<or> (mLb - mL)\<^sup>2 < q2 \<longrightarrow>
            get_obs ext function q2 wc_obj par lep = Inr 0) \<and>
         (4 * ml\<^sup>2 \<le> q2 \<and> q2 \<le> (mLb - mL)\<^sup>2 \<and>
          get_transverity_amps ext q2 wc_obj par lep False = Inr ta \<and>
          par (Str ''Lambda->ppi alpha_-'') = Some alpha \<longrightarrow>
            (\<exists>K. angular_coefficients ta alpha = Inr K \<and> card (dom K) = 10 \<and>
                 get_obs ext function q2 wc_obj par lep = function K))"
proof (intro conjI impI)
  assume "q2 < 4 * ml\<^sup>2 \<or> (mLb - mL)\<^sup>2 < q2"
  then show "get_obs ext function q2 wc_obj par lep = Inr 0"
    by (rule get_obs_outside [OF par])
next
  assume "4 * ml\<^sup>2 \<le> q2 \<and> q2 \<le> (mLb - mL)\<^sup>2 \<and>
          get_transverity_amps ext q2 wc_obj par lep False = Inr ta \<and>
          par (Str ''Lambda->ppi alpha_-'') = Some alpha"
  then show "\<exists>K. angular_coefficients ta alpha = Inr K \<and> card (dom K) = 10 \<and>
                 get_obs ext function q2 wc_obj par lep = function K"
    by (intro get_obs_inside [OF par]) simp_all
qed

theorem get_obs_window_witness:
  "get_obs example_ext dGdq2 1 () example_par ''mu'' = Inr 0 \<and>
   get_obs example_ext dGdq2 17 () example_par ''mu'' = Inr 0 \<and>
   (\<exists>ta K. get_transverity_amps example_ext 4 () example_par ''mu'' False = Inr ta \<and>
      angular_coefficients ta (1 / 2) = Inr K \<and> card (dom K) = 10 \<and>
      get_obs example_ext dGdq2 4 () example_par ''mu'' = dGdq2 K)"
proof -
  have par: "example_par (Str (''m_'' @ ''mu'')) = Some 1" "example_par (Str ''m_Lambdab'') = Some 5"
      "example_par (Str ''m_Lambda'') = Some 1"
    by (simp_all add: example_par_lookup)
  obtain ta where ta: "get_transverity_amps example_ext 4 () example_par ''mu'' False = Inr ta"
    using example_pipeline_returns [of 4] by auto
  have "get_obs example_ext dGdq2 1 () example_par ''mu'' = Inr 0"
    using get_obs_window [OF par, of 1 example_ext dGdq2 "()"] by simp
  moreover have "get_obs example_ext dGdq2 17 () example_par ''mu'' = Inr 0"
    using get_obs_window [OF par, of 17 example_ext dGdq2 "()"] by simp
  moreover have "\<exists>K. angular_coefficients ta (1 / 2) = Inr K \<and> card (dom K) = 10 \<and>
      get_obs example_ext dGdq2 4 () example_par ''mu'' = dGdq2 K"
    using get_obs_window [OF par, of 4 example_ext dGdq2 "()" ta "1 / 2"] ta
    by (simp add: example_par_lookup)
  ultimately show ?thesis using ta by blast
qed


text \<open>
  C6. Inside the window \<open>dbrdq2\<close> returns \<open>tau_Lambdab * (2 * K['1ss'] + K['1cc'])\<close> for
  the angular coefficients \<open>K\<close> of the point, and for \<open>q2min < q2max\<close> \<open>dbrdq2_int\<close>
  returns what the integrator returns for that density on \<open>[q2min, q2max]\<close>, divided by
  \<open>q2max - q2min\<close>.
\<close>

theorem dbrdq2_density_and_bin_average:
  assumes par: "par (Str (''m_'' @ lep)) = Some ml" "par (Str ''m_Lambdab'') = Some mLb"
      "par (Str ''m_Lambda'') = Some mL"
    and tau: "par (Str ''tau_Lambdab'') = Some tauLb"
  shows "(4 * ml\<^sup>2 \<le> q2 \<and> q2 \<le> (mLb - mL)\<^sup>2 \<and>
          get_transverity_amps ext q2 wc_obj par lep False = Inr ta \<and>
          par (Str ''Lambda->ppi alpha_-'') = Some alpha \<longrightarrow>
            (\<exists>K k1ss k1cc. angular_coefficients ta alpha = Inr K \<and>
               K (Str ''1ss'') = Some k1ss \<and> K (Str ''1cc'') = Some k1cc \<and>
               dbrdq2 ext q2 wc_obj par lep = Inr (tauLb * (2 * k1ss + k1cc)))) \<and>
         (q2min < q2max \<and>
          nintegrate ext (\<lambda>q2. dbrdq2 ext q2 wc_obj par lep) q2min q2max = Inr I \<longrightarrow>
            dbrdq2_int ext q2min q2max wc_obj par lep = Inr (I / (q2max - q2min)))"
proof (intro conjI impI)
  assume "4 * ml\<^sup>2 \<le> q2 \<and> q2 \<le> (mLb - mL)\<^sup>2 \<and>
          get_transverity_amps ext q2 wc_obj par lep False = Inr ta \<and>
          par (Str ''Lambda->ppi alpha_-'') = Some alpha"
  then show "\<exists>K k1ss k1cc. angular_coefficients ta alpha = Inr K \<and>
               K (Str ''1ss'') = Some k1ss \<and> K (Str ''1cc'') = Some k1cc \<and>
               dbrdq2 ext q2 wc_obj par lep = Inr (tauLb * (2 * k1ss + k1cc))"
    by (intro dbrdq2_inside [OF par tau]) simp_all
next
  assume "q2min < q2max \<and>
          nintegrate ext (\<lambda>q2. dbrdq2 ext q2 wc_obj par lep) q2min q2max = Inr I"
  then show "dbrdq2_int ext q2min q2max wc_obj par lep = Inr (I / (q2max - q2min))"
    by (intro dbrdq2_int_average) simp_all
qed

theorem dbrdq2_density_and_bin_average_witness:
  "(\<exists>ta K k1ss k1cc. get_transverity_amps example_ext 6 () example_par ''mu'' False = Inr ta \<and>
      angular_coefficients ta (1 / 2) = Inr K \<and>
      K (Str ''1ss'') = Some k1ss \<and> K (Str ''1cc'') = Some k1cc \<and>
      dbrdq2 example_ext 6 () example_par ''mu'' = Inr (2 * (2 * k1ss + k1cc))) \<and>
   (\<exists>I. nintegrate example_ext (\<lambda>q2. dbrdq2 example_ext q2 () example_par ''mu'') 4 8 = Inr I \<and>
      dbrdq2_int example_ext 4 8 () example_par ''mu'' = Inr (I / (8 - 4)))"
proof -
  have par: "example_par (Str (''m_'' @ ''mu'')) = Some 1" "example_par (Str ''m_Lambdab'') = Some 5"
      "example_par (Str ''m_Lambda'') = Some 1"
    by (simp_all add: example_par_lookup)
  note inst = dbrdq2_density_and_bin_average [OF par example_par_lookup(4)]
  obtain ta where ta: "get_transverity_amps example_ext 6 () example_par ''mu'' False = Inr ta"
    using example_pipeline_returns [of 6] by auto
  have density: "\<exists>K k1ss k1cc. angular_coefficients ta (1 / 2) = Inr K \<and>
      K (Str ''1ss'') = Some k1ss \<and> K (Str ''1cc'') = Some k1cc \<and>
      dbrdq2 example_ext 6 () example_par ''mu'' = Inr (2 * (2 * k1ss + k1cc))"
    using inst [where ?q2.0 = 6 and ext = example_ext and wc_obj = "()" and ta = ta and alpha = "1 / 2"] ta by (simp add: example_par_lookup)
  then obtain d where d: "dbrdq2 example_ext 6 () example_par ''mu'' = Inr d" by blast
  have I: "nintegrate example_ext (\<lambda>q2. dbrdq2 example_ext q2 () example_par ''mu'') 4 8
      = Inr (d * 4)"
    by (simp add: example_nintegrate d)
  have "dbrdq2_int example_ext 4 8 () example_par ''mu'' = Inr (d * 4 / (8 - 4))"
    using inst [where q2min = 4 and q2max = 8 and ext = example_ext and wc_obj = "()" and I = "d * 4"] I by simp
  with I density ta show ?thesis by blast
qed

text \<open>
  C7. With the CP-conjugation flag set, \<open>get_transverity_amps\<close> does not transform the
  parameter table and run the pipeline: it raises \<open>NameError\<close>, on an input on which the
  call without the flag returns.
\<close>

theorem get_transverity_amps_cp_conjugate_raises:
  "get_transverity_amps example_ext 4 () example_par ''mu'' True = Inl (NameError ''conjugate_par'')
   \<and> (\<exists>ta. get_transverity_amps example_ext 4 () example_par ''mu'' False = Inr ta)"
  using example_pipeline_returns [of 4] by (simp add: get_transverity_amps_cp_flag)

end
